theory Spec2Isabelle
  imports Complex_Main
begin

section \<open>Values carried through the geocoding wrapper\<close>

text \<open>
  The wrapper in \<^verbatim>\<open>src/main.py\<close> forwards requests to the Photon service and reshapes
  the decoded JSON. Decoded JSON is what Python's \<^verbatim>\<open>response.json()\<close> hands to the
  code: \<^verbatim>\<open>None\<close>, \<^verbatim>\<open>bool\<close>, \<^verbatim>\<open>int\<close>, \<^verbatim>\<open>float\<close>, \<^verbatim>\<open>str\<close>, \<^verbatim>\<open>list\<close> and \<^verbatim>\<open>dict\<close>. A dict is an
  association list read with \<open>map_of\<close>. Floats are only carried, never computed with;
  they are rationals here.
\<close>

datatype json =
    JNull
  | JBool bool
  | JInt int
  | JFloat rat
  | JStr string
  | JArr "json list"
  | JObj "(string \<times> json) list"

text \<open>The values the code puts into the query parameters of an upstream call.\<close>

datatype pval = PStr string | PInt int | PFloat rat

type_synonym params = "(string \<times> pval) list"

text \<open>
  Exceptions. \<open>HTTPStatusError\<close> is httpx's, with \<^verbatim>\<open>e.response.status_code\<close> and the
  text of \<^verbatim>\<open>str(e)\<close>; \<open>HTTPException\<close> is FastAPI's, with \<^verbatim>\<open>status_code\<close> and \<^verbatim>\<open>detail\<close>.
  The others carry the text of \<^verbatim>\<open>str(e)\<close>.
\<close>

datatype exn =
    HTTPStatusError nat string
  | HTTPException nat string
  | RequestError string
  | JSONDecodeError string
  | KeyError string
  | IndexError string
  | TypeError string
  | AttributeError string
  | ValidationError string

definition digits :: string where
  "digits = ''0123456789''"

function show_nat :: "nat \<Rightarrow> string" where
  "show_nat n = (if n < 10 then [digits ! n] else show_nat (n div 10) @ [digits ! (n mod 10)])"
  by pat_completeness auto
termination
  by (relation "measure (\<lambda>n. n)") auto

declare show_nat.simps [simp del]

text \<open>
  \<^verbatim>\<open>str(e)\<close>. Starlette's \<^verbatim>\<open>HTTPException.__str__\<close> is
  \<^verbatim>\<open>f"{self.status_code}: {self.detail}"\<close>.
\<close>

fun str_exn :: "exn \<Rightarrow> string" where
  "str_exn (HTTPStatusError code msg) = msg"
| "str_exn (HTTPException code detail) = show_nat code @ '': '' @ detail"
| "str_exn (RequestError msg) = msg"
| "str_exn (JSONDecodeError msg) = msg"
| "str_exn (KeyError msg) = msg"
| "str_exn (IndexError msg) = msg"
| "str_exn (TypeError msg) = msg"
| "str_exn (AttributeError msg) = msg"
| "str_exn (ValidationError msg) = msg"

definition is_HTTPException :: "exn \<Rightarrow> bool" where
  "is_HTTPException e = (case e of HTTPException code detail \<Rightarrow> True | _ \<Rightarrow> False)"

section \<open>Python's operations on decoded JSON\<close>

text \<open>\<^verbatim>\<open>type(v).__name__\<close>, as it appears in the interpreter's error messages.\<close>

fun type_name :: "json \<Rightarrow> string" where
  "type_name JNull = ''NoneType''"
| "type_name (JBool b) = ''bool''"
| "type_name (JInt n) = ''int''"
| "type_name (JFloat x) = ''float''"
| "type_name (JStr s) = ''str''"
| "type_name (JArr xs) = ''list''"
| "type_name (JObj kvs) = ''dict''"

text \<open>\<^verbatim>\<open>v[key]\<close> with a string key: only a dict accepts it, and raises KeyError when
  the key is absent (whose text is the \<^verbatim>\<open>repr\<close> of the key).\<close>

fun py_getitem :: "json \<Rightarrow> string \<Rightarrow> exn + json" where
  "py_getitem (JObj kvs) key =
     (case map_of kvs key of
        Some v \<Rightarrow> Inr v
      | None \<Rightarrow> Inl (KeyError ([CHR 39] @ key @ [CHR 39])))"
| "py_getitem (JArr xs) key = Inl (TypeError ''list indices must be integers or slices, not str'')"
| "py_getitem (JStr s) key = Inl (TypeError (''string indices must be integers, not '' @ [CHR 39] @ ''str'' @ [CHR 39]))"
| "py_getitem v key = Inl (TypeError ([CHR 39] @ type_name v @ [CHR 39] @ '' object is not subscriptable''))"

text \<open>\<^verbatim>\<open>v[0]\<close>: the first element of a list, the first character of a string.\<close>

fun py_getitem0 :: "json \<Rightarrow> exn + json" where
  "py_getitem0 (JArr xs) =
     (case xs of [] \<Rightarrow> Inl (IndexError ''list index out of range'') | x # _ \<Rightarrow> Inr x)"
| "py_getitem0 (JStr s) =
     (case s of [] \<Rightarrow> Inl (IndexError ''string index out of range'') | c # _ \<Rightarrow> Inr (JStr [c]))"
| "py_getitem0 (JObj kvs) = Inl (KeyError ''0'')"
| "py_getitem0 v = Inl (TypeError ([CHR 39] @ type_name v @ [CHR 39] @ '' object is not subscriptable''))"

text \<open>\<^verbatim>\<open>v.get(key)\<close>: a dict method, \<^verbatim>\<open>None\<close> for an absent key.\<close>

fun py_get :: "json \<Rightarrow> string \<Rightarrow> exn + json" where
  "py_get (JObj kvs) key = Inr (case map_of kvs key of Some v \<Rightarrow> v | None \<Rightarrow> JNull)"
| "py_get v key =
     Inl (AttributeError ([CHR 39] @ type_name v @ [CHR 39] @ '' object has no attribute ''
                          @ [CHR 39] @ ''get'' @ [CHR 39]))"

text \<open>Truth value of a value, as \<^verbatim>\<open>if not features\<close> tests it.\<close>

fun py_truthy :: "json \<Rightarrow> bool" where
  "py_truthy JNull = False"
| "py_truthy (JBool b) = b"
| "py_truthy (JInt n) = (n \<noteq> 0)"
| "py_truthy (JFloat x) = (x \<noteq> 0)"
| "py_truthy (JStr s) = (s \<noteq> [])"
| "py_truthy (JArr xs) = (xs \<noteq> [])"
| "py_truthy (JObj kvs) = (kvs \<noteq> [])"

text \<open>What \<^verbatim>\<open>for feature in v\<close> iterates over: the elements of a list, the keys of a
  dict, the characters of a string.\<close>

fun py_iter :: "json \<Rightarrow> exn + json list" where
  "py_iter (JArr xs) = Inr xs"
| "py_iter (JObj kvs) = Inr (map (\<lambda>kv. JStr (fst kv)) kvs)"
| "py_iter (JStr s) = Inr (map (\<lambda>c. JStr [c]) s)"
| "py_iter v = Inl (TypeError ([CHR 39] @ type_name v @ [CHR 39] @ '' object is not iterable''))"

section \<open>The upstream service and the HTTP client\<close>

text \<open>
  A response of the upstream service: its status code, the message httpx gives the
  \<open>HTTPStatusError\<close> for it, and what \<^verbatim>\<open>response.json()\<close> yields (the decoded body, or
  the text of the decoding error).
\<close>

record response =
  status_code :: nat
  error_text :: string
  json_body :: "string + json"

text \<open>\<^verbatim>\<open>client.get\<close> either raises (connection failure, timeout) or returns a response.\<close>

datatype reply = Raised string | Responded response

type_synonym request = "string \<times> params"

text \<open>The world: how the upstream answers, and the requests sent to it so far.\<close>

record world =
  upstream :: "request \<Rightarrow> reply"
  sent :: "request list"

type_synonym 'a io = "world \<Rightarrow> (exn + 'a) \<times> world"

definition BASE_URL :: string where
  "BASE_URL = ''https://photon.komoot.io''"

definition client_get :: "string \<Rightarrow> params \<Rightarrow> world \<Rightarrow> reply \<times> world" where
  "client_get url params w = (upstream w (url, params), w\<lparr>sent := sent w @ [(url, params)]\<rparr>)"

text \<open>httpx: \<^verbatim>\<open>response.is_success\<close> holds of the 2xx statuses, and \<^verbatim>\<open>raise_for_status\<close>
  raises \<open>HTTPStatusError\<close> unless it holds.\<close>

definition is_success :: "response \<Rightarrow> bool" where
  "is_success r = (200 \<le> status_code r \<and> status_code r \<le> 299)"

definition raise_for_status :: "response \<Rightarrow> exn + response" where
  "raise_for_status r =
     (if is_success r then Inr r
      else Inl (HTTPStatusError (status_code r) (error_text r)))"

definition response_json :: "response \<Rightarrow> exn + json" where
  "response_json r = (case json_body r of Inl msg \<Rightarrow> Inl (JSONDecodeError msg) | Inr j \<Rightarrow> Inr j)"

section \<open>Geocoding functions\<close>

text \<open>
  The two \<^verbatim>\<open>except\<close> clauses that close the \<^verbatim>\<open>try\<close> block of each of the three geocoding
  functions (lines 51-54, 68-71, 87-90): \<open>HTTPStatusError\<close> first, then \<^verbatim>\<open>Exception\<close>,
  which every other exception of the block is an instance of.
\<close>

fun except_clauses :: "exn \<Rightarrow> exn" where
  "except_clauses (HTTPStatusError code msg) =
     HTTPException code (''Geocoding service error: '' @ msg)"
| "except_clauses e = HTTPException 500 (''Unexpected error: '' @ str_exn e)"

definition search_place :: "string \<Rightarrow> int option \<Rightarrow> string option \<Rightarrow> json io" where
  "search_place query limit lang w =
     (let params = [(''q'', PStr query)];
          params = (case limit of
                      Some n \<Rightarrow> if n \<noteq> 0 then params @ [(''limit'', PInt n)] else params
                    | None \<Rightarrow> params);
          params = (case lang of
                      Some s \<Rightarrow> if s \<noteq> [] then params @ [(''lang'', PStr s)] else params
                    | None \<Rightarrow> params);
          (reply, w') = client_get (BASE_URL @ ''/api/'') params w
      in (case (case reply of
                  Raised msg \<Rightarrow> Inl (RequestError msg)
                | Responded response \<Rightarrow>
                    (case raise_for_status response of
                       Inl e \<Rightarrow> Inl e
                     | Inr response \<Rightarrow>
                         (case response_json response of
                            Inl e \<Rightarrow> Inl e
                          | Inr body \<Rightarrow> py_getitem body ''features'')))
          of Inl e \<Rightarrow> Inl (except_clauses e)
           | Inr features \<Rightarrow> Inr features,
          w'))"

definition search_with_location :: "string \<Rightarrow> rat \<Rightarrow> rat \<Rightarrow> json io" where
  "search_with_location query lat lon w =
     (let params = [(''q'', PStr query), (''lat'', PFloat lat), (''lon'', PFloat lon)];
          (reply, w') = client_get (BASE_URL @ ''/api/'') params w
      in (case (case reply of
                  Raised msg \<Rightarrow> Inl (RequestError msg)
                | Responded response \<Rightarrow>
                    (case raise_for_status response of
                       Inl e \<Rightarrow> Inl e
                     | Inr response \<Rightarrow>
                         (case response_json response of
                            Inl e \<Rightarrow> Inl e
                          | Inr body \<Rightarrow> py_getitem body ''features'')))
          of Inl e \<Rightarrow> Inl (except_clauses e)
           | Inr features \<Rightarrow> Inr features,
          w'))"

definition reverse_geocode :: "rat \<Rightarrow> rat \<Rightarrow> json io" where
  "reverse_geocode lat lon w =
     (let params = [(''lat'', PFloat lat), (''lon'', PFloat lon)];
          (reply, w') = client_get (BASE_URL @ ''/reverse'') params w
      in (case (case reply of
                  Raised msg \<Rightarrow> Inl (RequestError msg)
                | Responded response \<Rightarrow>
                    (case raise_for_status response of
                       Inl e \<Rightarrow> Inl e
                     | Inr response \<Rightarrow>
                         (case response_json response of
                            Inl e \<Rightarrow> Inl e
                          | Inr body \<Rightarrow>
                              (case py_getitem body ''features'' of
                                 Inl e \<Rightarrow> Inl e
                               | Inr features \<Rightarrow>
                                   if \<not> py_truthy features
                                   then Inl (HTTPException 404
                                               ''No location found for the given coordinates'')
                                   else (case py_getitem0 features of
                                           Inl e \<Rightarrow> Inl e
                                         | Inr first \<Rightarrow> py_getitem first ''properties'')))))
          of Inl e \<Rightarrow> Inl (except_clauses e)
           | Inr result \<Rightarrow> Inr result,
          w'))"

section \<open>Request and response models\<close>

record PlaceSearchRequest =
  ps_query :: string
  ps_limit :: "int option"
  ps_lang :: "string option"

record LocationSearchRequest =
  ls_query :: string
  ls_lat :: rat
  ls_lon :: rat

record ReverseGeocodeRequest =
  rg_lat :: rat
  rg_lon :: rat

text \<open>
  A Python float as a field of the response holds it: a finite value, an infinity or
  not-a-number.
\<close>

datatype pyfloat = Finite rat | PosInf | NegInf | NaN

record PlaceResponse =
  name :: "string option"
  country :: "string option"
  coordinates :: "pyfloat list"
  properties :: "(string \<times> json) list"

text \<open>
  Python's conversion of an \<^verbatim>\<open>int\<close> to a \<^verbatim>\<open>float\<close>: the nearest double, a tie going to
  the even significand of 53 bits; an \<^verbatim>\<open>int\<close> that rounds to \<open>2 ^ 1024\<close> or more, a number
  of more than 1024 bits, has none. \<open>bit_length\<close> is \<^verbatim>\<open>int.bit_length\<close> on the numbers that
  are not negative.
\<close>

function bit_length :: "int \<Rightarrow> nat" where
  "bit_length n = (if n \<le> 0 then 0 else bit_length (n div 2) + 1)"
  by pat_completeness auto
termination
  by (relation "measure (\<lambda>n. nat n)") auto

declare bit_length.simps [simp del]

definition double_of_int :: "int \<Rightarrow> rat option" where
  "double_of_int n =
     (let a = \<bar>n\<bar>;
          e = bit_length a - 53;
          q = a div 2 ^ e;
          r = a mod 2 ^ e;
          q' = (if 2 ^ e < 2 * r \<or> (2 * r = 2 ^ e \<and> odd q) then q + 1 else q);
          m = q' * 2 ^ e
      in if 1024 < bit_length m then None
         else Some (of_int (if n < 0 then - m else m)))"

text \<open>
  Constructing a \<open>PlaceResponse\<close> validates the arguments against the declared field
  types (pydantic), and raises \<open>ValidationError\<close> when one does not fit.
  \<^verbatim>\<open>Optional[str]\<close> takes \<^verbatim>\<open>None\<close> or a string and \<^verbatim>\<open>Dict[str, Any]\<close> a dict.
  \<^verbatim>\<open>List[float]\<close> takes a list and converts each element to a float: a float stays as
  it is, an \<^verbatim>\<open>int\<close> becomes its nearest double and is refused when it has none, a \<^verbatim>\<open>bool\<close>
  becomes 0.0 or 1.0, and a string becomes the float it reads as and is refused when
  it does not read as one. How a string reads as a float is the library's; it is the
  parameter \<open>float_of_str\<close> of everything that validates.
\<close>

fun optional_str :: "json \<Rightarrow> string option option" where
  "optional_str JNull = Some None"
| "optional_str (JStr s) = Some (Some s)"
| "optional_str v = None"

fun as_float :: "(string \<Rightarrow> pyfloat option) \<Rightarrow> json \<Rightarrow> pyfloat option" where
  "as_float float_of_str (JFloat x) = Some (Finite x)"
| "as_float float_of_str (JInt n) = map_option Finite (double_of_int n)"
| "as_float float_of_str (JBool b) = Some (Finite (if b then 1 else 0))"
| "as_float float_of_str (JStr s) = float_of_str s"
| "as_float float_of_str v = None"

fun list_of_float :: "(string \<Rightarrow> pyfloat option) \<Rightarrow> json \<Rightarrow> pyfloat list option" where
  "list_of_float float_of_str (JArr xs) = those (map (as_float float_of_str) xs)"
| "list_of_float float_of_str v = None"

fun dict_of_any :: "json \<Rightarrow> (string \<times> json) list option" where
  "dict_of_any (JObj kvs) = Some kvs"
| "dict_of_any v = None"

definition PlaceResponse_init ::
  "(string \<Rightarrow> pyfloat option) \<Rightarrow> json \<Rightarrow> json \<Rightarrow> json \<Rightarrow> json \<Rightarrow> exn + PlaceResponse" where
  "PlaceResponse_init float_of_str n c coords props =
     (case (optional_str n, optional_str c, list_of_float float_of_str coords,
            dict_of_any props) of
        (Some n', Some c', Some coords', Some props') \<Rightarrow>
          Inr \<lparr>name = n', country = c', coordinates = coords', properties = props'\<rparr>
      | _ \<Rightarrow> Inl (ValidationError ''PlaceResponse''))"

section \<open>API endpoints\<close>

text \<open>
  The body of the \<^verbatim>\<open>for feature in features\<close> loop, the same text in the four search
  endpoints (lines 119-126, 147-154, 171-178, 199-206). It runs outside any \<^verbatim>\<open>try\<close>.
\<close>

definition project_feature :: "(string \<Rightarrow> pyfloat option) \<Rightarrow> json \<Rightarrow> exn + PlaceResponse" where
  "project_feature float_of_str feature =
     (case py_getitem feature ''properties'' of
        Inl e \<Rightarrow> Inl e
      | Inr props \<Rightarrow>
          (case py_getitem feature ''geometry'' of
             Inl e \<Rightarrow> Inl e
           | Inr geometry \<Rightarrow>
               (case py_getitem geometry ''coordinates'' of
                  Inl e \<Rightarrow> Inl e
                | Inr coords \<Rightarrow>
                    (case py_get props ''name'' of
                       Inl e \<Rightarrow> Inl e
                     | Inr n \<Rightarrow>
                         (case py_get props ''country'' of
                            Inl e \<Rightarrow> Inl e
                          | Inr c \<Rightarrow> PlaceResponse_init float_of_str n c coords props)))))"

text \<open>The loop: \<open>results\<close> grows by one \<open>PlaceResponse\<close> per feature, and the first
  exception ends it.\<close>

fun for_feature_in ::
  "(string \<Rightarrow> pyfloat option) \<Rightarrow> json list \<Rightarrow> PlaceResponse list \<Rightarrow> exn + PlaceResponse list" where
  "for_feature_in float_of_str [] results = Inr results"
| "for_feature_in float_of_str (feature # rest) results =
     (case project_feature float_of_str feature of
        Inl e \<Rightarrow> Inl e
      | Inr r \<Rightarrow> for_feature_in float_of_str rest (results @ [r]))"

definition build_results :: "(string \<Rightarrow> pyfloat option) \<Rightarrow> json \<Rightarrow> exn + PlaceResponse list" where
  "build_results float_of_str features =
     (case py_iter features of
        Inl e \<Rightarrow> Inl e
      | Inr fs \<Rightarrow> for_feature_in float_of_str fs [])"

definition search_places ::
  "(string \<Rightarrow> pyfloat option) \<Rightarrow> PlaceSearchRequest \<Rightarrow> PlaceResponse list io" where
  "search_places float_of_str request w =
     (case search_place (ps_query request) (ps_limit request) (ps_lang request) w of
        (Inl e, w') \<Rightarrow> (Inl e, w')
      | (Inr features, w') \<Rightarrow> (build_results float_of_str features, w'))"

definition search_places_get ::
  "(string \<Rightarrow> pyfloat option) \<Rightarrow> string \<Rightarrow> int option \<Rightarrow> string option \<Rightarrow> PlaceResponse list io" where
  "search_places_get float_of_str query limit lang w =
     (case search_place query limit lang w of
        (Inl e, w') \<Rightarrow> (Inl e, w')
      | (Inr features, w') \<Rightarrow> (build_results float_of_str features, w'))"

definition search_with_location_priority ::
  "(string \<Rightarrow> pyfloat option) \<Rightarrow> LocationSearchRequest \<Rightarrow> PlaceResponse list io" where
  "search_with_location_priority float_of_str request w =
     (case search_with_location (ls_query request) (ls_lat request) (ls_lon request) w of
        (Inl e, w') \<Rightarrow> (Inl e, w')
      | (Inr features, w') \<Rightarrow> (build_results float_of_str features, w'))"

definition search_with_location_priority_get ::
  "(string \<Rightarrow> pyfloat option) \<Rightarrow> string \<Rightarrow> rat \<Rightarrow> rat \<Rightarrow> PlaceResponse list io" where
  "search_with_location_priority_get float_of_str query lat lon w =
     (case search_with_location query lat lon w of
        (Inl e, w') \<Rightarrow> (Inl e, w')
      | (Inr features, w') \<Rightarrow> (build_results float_of_str features, w'))"

definition reverse_geocode_endpoint :: "ReverseGeocodeRequest \<Rightarrow> json io" where
  "reverse_geocode_endpoint request w = reverse_geocode (rg_lat request) (rg_lon request) w"

definition reverse_geocode_endpoint_get :: "rat \<Rightarrow> rat \<Rightarrow> json io" where
  "reverse_geocode_endpoint_get lat lon w = reverse_geocode lat lon w"

section \<open>Binding of the location search's parameters\<close>

text \<open>
  What an endpoint declares of a parameter: that it is required (\<^verbatim>\<open>Query(...)\<close>, or a
  model field without default), or the default that stands in when the request does
  not carry it. The GET endpoint of the location search declares its three parameters
  with \<^verbatim>\<open>Query(...)\<close> (lines 184-186); the POST endpoint takes a
  \<open>LocationSearchRequest\<close>, whose three fields have no default (lines 22-25).
\<close>

datatype 'a declared = Required | Default 'a

record location_parameters =
  declared_query :: "string declared"
  declared_lat :: "rat declared"
  declared_lon :: "rat declared"

definition search_with_location_priority_get_parameters :: location_parameters where
  "search_with_location_priority_get_parameters =
     \<lparr>declared_query = Required, declared_lat = Required, declared_lon = Required\<rparr>"

definition LocationSearchRequest_fields :: location_parameters where
  "LocationSearchRequest_fields =
     \<lparr>declared_query = Required, declared_lat = Required, declared_lon = Required\<rparr>"

text \<open>
  Modelled from the spec: the binding of the declared parameters to an incoming
  request, which the web framework does before it calls an endpoint and whose code is
  not in the repository. The spec lists \<^verbatim>\<open>/search/location\<close> with "query, lat, lon (all
  required)" and says that a "location-biased search without lat or lon supplied must
  be rejected before any upstream call is made (missing required parameter)". A
  parameter that the request carries is bound to its value and one that it lacks to
  the declared default; a request that lacks a required parameter is rejected, with
  the names of the parameters that are missing, and the endpoint is not called. A
  parameter of the incoming request is \<open>None\<close> when the request does not carry it.
\<close>

datatype 'a routed = Rejected "string list" | Handled "exn + 'a"

definition bind_parameter :: "'a declared \<Rightarrow> 'a option \<Rightarrow> 'a option" where
  "bind_parameter d v =
     (case v of
        Some x \<Rightarrow> Some x
      | None \<Rightarrow> (case d of Required \<Rightarrow> None | Default x \<Rightarrow> Some x))"

definition missing_params :: "string option \<Rightarrow> rat option \<Rightarrow> rat option \<Rightarrow> string list" where
  "missing_params query lat lon =
     (if query = None then [''query''] else [])
     @ (if lat = None then [''lat''] else [])
     @ (if lon = None then [''lon''] else [])"

definition route_get_search_location ::
  "(string \<Rightarrow> pyfloat option) \<Rightarrow> string option \<Rightarrow> rat option \<Rightarrow> rat option \<Rightarrow> world
     \<Rightarrow> PlaceResponse list routed \<times> world" where
  "route_get_search_location float_of_str query lat lon w =
     (let d = search_with_location_priority_get_parameters;
          query' = bind_parameter (declared_query d) query;
          lat' = bind_parameter (declared_lat d) lat;
          lon' = bind_parameter (declared_lon d) lon
      in case (query', lat', lon') of
           (Some q, Some la, Some lo) \<Rightarrow>
             (let (r, w') = search_with_location_priority_get float_of_str q la lo w
              in (Handled r, w'))
         | _ \<Rightarrow> (Rejected (missing_params query' lat' lon'), w))"

definition route_post_search_location ::
  "(string \<Rightarrow> pyfloat option) \<Rightarrow> string option \<Rightarrow> rat option \<Rightarrow> rat option \<Rightarrow> world
     \<Rightarrow> PlaceResponse list routed \<times> world" where
  "route_post_search_location float_of_str query lat lon w =
     (let d = LocationSearchRequest_fields;
          query' = bind_parameter (declared_query d) query;
          lat' = bind_parameter (declared_lat d) lat;
          lon' = bind_parameter (declared_lon d) lon
      in case (query', lat', lon') of
           (Some q, Some la, Some lo) \<Rightarrow>
             (let (r, w') = search_with_location_priority float_of_str
                              \<lparr>ls_query = q, ls_lat = la, ls_lon = lo\<rparr> w
              in (Handled r, w'))
         | _ \<Rightarrow> (Rejected (missing_params query' lat' lon'), w))"

section \<open>Example upstreams and features\<close>

text \<open>An upstream that gives every request the same response, one that cannot be
  reached, and a world in which nothing has been sent yet.\<close>

definition respond_with :: "nat \<Rightarrow> string + json \<Rightarrow> request \<Rightarrow> reply" where
  "respond_with code body req =
     Responded \<lparr>status_code = code, error_text = ''status '' @ show_nat code, json_body = body\<rparr>"

definition unreachable :: "request \<Rightarrow> reply" where
  "unreachable req = Raised ''All connection attempts failed''"

definition fresh_world :: "(request \<Rightarrow> reply) \<Rightarrow> world" where
  "fresh_world up = \<lparr>upstream = up, sent = []\<rparr>"

definition feature_collection :: "json list \<Rightarrow> string + json" where
  "feature_collection fs = Inr (JObj [(''type'', JStr ''FeatureCollection''), (''features'', JArr fs)])"

definition berlin :: json where
  "berlin = JObj
     [(''geometry'', JObj [(''coordinates'', JArr [JFloat 13.438596, JFloat 52.519854]),
                           (''type'', JStr ''Point'')]),
      (''type'', JStr ''Feature''),
      (''properties'', JObj [(''osm_id'', JInt 240109189), (''name'', JStr ''Berlin''),
                             (''country'', JStr ''Germany'')])]"

text \<open>A feature with neither \<^verbatim>\<open>name\<close> nor \<^verbatim>\<open>country\<close>, and one with no \<^verbatim>\<open>properties\<close>.\<close>

definition nameless :: json where
  "nameless = JObj
     [(''geometry'', JObj [(''coordinates'', JArr [JInt 2, JFloat 48.8566])]),
      (''properties'', JObj [(''osm_id'', JInt 7444)])]"

definition no_properties :: json where
  "no_properties = JObj [(''geometry'', JObj [(''coordinates'', JArr [JInt 2, JInt 48])])]"



definition sample_float_of_str :: "string \<Rightarrow> pyfloat option" where
  "sample_float_of_str =
     map_of [(''52.5'', Finite 52.5), (''1e3'', Finite 1000), (''inf'', PosInf), (''nan'', NaN)]"

section \<open>What each geocoding function sends and returns\<close>

lemma except_clauses_getitem:
  "py_getitem v k = Inl e \<Longrightarrow> except_clauses e = HTTPException 500 (''Unexpected error: '' @ str_exn e)"
  by (cases v) (auto split: option.splits)

lemma except_clauses_getitem0:
  "py_getitem0 v = Inl e \<Longrightarrow> except_clauses e = HTTPException 500 (''Unexpected error: '' @ str_exn e)"
  by (cases v) (auto split: list.splits)

lemma search_place_snd:
  "snd (search_place query limit lang w) =
     w\<lparr>sent := sent w @ [(BASE_URL @ ''/api/'',
        [(''q'', PStr query)]
        @ (case limit of None \<Rightarrow> [] | Some n \<Rightarrow> if n = 0 then [] else [(''limit'', PInt n)])
        @ (case lang of None \<Rightarrow> [] | Some s \<Rightarrow> if s = [] then [] else [(''lang'', PStr s)]))]\<rparr>"
  by (simp add: search_place_def client_get_def Let_def split: option.splits)

lemma search_with_location_snd:
  "snd (search_with_location query lat lon w) =
     w\<lparr>sent := sent w @ [(BASE_URL @ ''/api/'',
        [(''q'', PStr query), (''lat'', PFloat lat), (''lon'', PFloat lon)])]\<rparr>"
  by (simp add: search_with_location_def client_get_def Let_def)

lemma reverse_geocode_snd:
  "snd (reverse_geocode lat lon w) =
     w\<lparr>sent := sent w @ [(BASE_URL @ ''/reverse'', [(''lat'', PFloat lat), (''lon'', PFloat lon)])]\<rparr>"
  by (simp add: reverse_geocode_def client_get_def Let_def)



lemma search_place_last:
  "last (sent (snd (search_place query limit lang w))) =
     (BASE_URL @ ''/api/'',
        [(''q'', PStr query)]
        @ (case limit of None \<Rightarrow> [] | Some n \<Rightarrow> if n = 0 then [] else [(''limit'', PInt n)])
        @ (case lang of None \<Rightarrow> [] | Some s \<Rightarrow> if s = [] then [] else [(''lang'', PStr s)]))"
  by (simp add: search_place_snd)

lemma search_place_fst_unfold:
  "fst (search_place query limit lang w) =
     (case (case upstream w (last (sent (snd (search_place query limit lang w)))) of
                  Raised msg \<Rightarrow> Inl (RequestError msg)
                | Responded response \<Rightarrow>
                    (case raise_for_status response of
                       Inl e \<Rightarrow> Inl e
                     | Inr response \<Rightarrow>
                         (case response_json response of
                            Inl e \<Rightarrow> Inl e
                          | Inr body \<Rightarrow> py_getitem body ''features'')))
          of Inl e \<Rightarrow> Inl (except_clauses e)
           | Inr features \<Rightarrow> Inr features)"
  unfolding search_place_last
  by (simp add: search_place_def client_get_def Let_def split: option.splits)


lemma search_place_raised:
  assumes "upstream w (last (sent (snd (search_place query limit lang w)))) = Raised msg"
  shows "fst (search_place query limit lang w) = Inl (HTTPException 500 (''Unexpected error: '' @ msg))"
  by (simp add: search_place_fst_unfold assms)

lemma search_place_status:
  assumes "upstream w (last (sent (snd (search_place query limit lang w)))) = Responded r"
    and "\<not> is_success r"
  shows "fst (search_place query limit lang w) =
           Inl (HTTPException (status_code r) (''Geocoding service error: '' @ error_text r))"
  by (simp add: search_place_fst_unfold assms raise_for_status_def)

lemma search_place_malformed:
  assumes "upstream w (last (sent (snd (search_place query limit lang w)))) = Responded r"
    and "is_success r"
    and "json_body r = Inl msg"
  shows "fst (search_place query limit lang w) = Inl (HTTPException 500 (''Unexpected error: '' @ msg))"
  by (simp add: search_place_fst_unfold assms raise_for_status_def response_json_def)

lemma search_place_decoded:
  assumes "upstream w (last (sent (snd (search_place query limit lang w)))) = Responded r"
    and "is_success r"
    and "json_body r = Inr body"
  shows "fst (search_place query limit lang w) =
           (case py_getitem body ''features'' of
              Inl e \<Rightarrow> Inl (HTTPException 500 (''Unexpected error: '' @ str_exn e))
            | Inr features \<Rightarrow> Inr features)"
  by (cases "py_getitem body ''features''")
     (simp_all add: search_place_fst_unfold assms raise_for_status_def response_json_def
        except_clauses_getitem)

lemma search_with_location_last:
  "last (sent (snd (search_with_location query lat lon w))) =
     (BASE_URL @ ''/api/'', [(''q'', PStr query), (''lat'', PFloat lat), (''lon'', PFloat lon)])"
  by (simp add: search_with_location_snd)

lemma search_with_location_fst_unfold:
  "fst (search_with_location query lat lon w) =
     (case (case upstream w (last (sent (snd (search_with_location query lat lon w)))) of
                  Raised msg \<Rightarrow> Inl (RequestError msg)
                | Responded response \<Rightarrow>
                    (case raise_for_status response of
                       Inl e \<Rightarrow> Inl e
                     | Inr response \<Rightarrow>
                         (case response_json response of
                            Inl e \<Rightarrow> Inl e
                          | Inr body \<Rightarrow> py_getitem body ''features'')))
          of Inl e \<Rightarrow> Inl (except_clauses e)
           | Inr features \<Rightarrow> Inr features)"
  unfolding search_with_location_last
  by (simp add: search_with_location_def client_get_def Let_def)

lemma search_with_location_raised:
  assumes "upstream w (last (sent (snd (search_with_location query lat lon w)))) = Raised msg"
  shows "fst (search_with_location query lat lon w) = Inl (HTTPException 500 (''Unexpected error: '' @ msg))"
  by (simp add: search_with_location_fst_unfold assms)

lemma search_with_location_status:
  assumes "upstream w (last (sent (snd (search_with_location query lat lon w)))) = Responded r"
    and "\<not> is_success r"
  shows "fst (search_with_location query lat lon w) =
           Inl (HTTPException (status_code r) (''Geocoding service error: '' @ error_text r))"
  by (simp add: search_with_location_fst_unfold assms raise_for_status_def)

lemma search_with_location_malformed:
  assumes "upstream w (last (sent (snd (search_with_location query lat lon w)))) = Responded r"
    and "is_success r"
    and "json_body r = Inl msg"
  shows "fst (search_with_location query lat lon w) = Inl (HTTPException 500 (''Unexpected error: '' @ msg))"
  by (simp add: search_with_location_fst_unfold assms raise_for_status_def response_json_def)

lemma search_with_location_decoded:
  assumes "upstream w (last (sent (snd (search_with_location query lat lon w)))) = Responded r"
    and "is_success r"
    and "json_body r = Inr body"
  shows "fst (search_with_location query lat lon w) =
           (case py_getitem body ''features'' of
              Inl e \<Rightarrow> Inl (HTTPException 500 (''Unexpected error: '' @ str_exn e))
            | Inr features \<Rightarrow> Inr features)"
  by (cases "py_getitem body ''features''")
     (simp_all add: search_with_location_fst_unfold assms raise_for_status_def response_json_def
        except_clauses_getitem)

lemma reverse_geocode_last:
  "last (sent (snd (reverse_geocode lat lon w))) =
     (BASE_URL @ ''/reverse'', [(''lat'', PFloat lat), (''lon'', PFloat lon)])"
  by (simp add: reverse_geocode_snd)

lemma reverse_geocode_fst_unfold:
  "fst (reverse_geocode lat lon w) =
     (case (case upstream w (last (sent (snd (reverse_geocode lat lon w)))) of
                  Raised msg \<Rightarrow> Inl (RequestError msg)
                | Responded response \<Rightarrow>
                    (case raise_for_status response of
                       Inl e \<Rightarrow> Inl e
                     | Inr response \<Rightarrow>
                         (case response_json response of
                            Inl e \<Rightarrow> Inl e
                          | Inr body \<Rightarrow>
                              (case py_getitem body ''features'' of
                                 Inl e \<Rightarrow> Inl e
                               | Inr features \<Rightarrow>
                                   if \<not> py_truthy features
                                   then Inl (HTTPException 404
                                               ''No location found for the given coordinates'')
                                   else (case py_getitem0 features of
                                           Inl e \<Rightarrow> Inl e
                                         | Inr first \<Rightarrow> py_getitem first ''properties'')))))
          of Inl e \<Rightarrow> Inl (except_clauses e)
           | Inr result \<Rightarrow> Inr result)"
  unfolding reverse_geocode_last
  by (simp add: reverse_geocode_def client_get_def Let_def)

lemma reverse_geocode_raised:
  assumes "upstream w (last (sent (snd (reverse_geocode lat lon w)))) = Raised msg"
  shows "fst (reverse_geocode lat lon w) = Inl (HTTPException 500 (''Unexpected error: '' @ msg))"
  by (simp add: reverse_geocode_fst_unfold assms)

lemma reverse_geocode_status:
  assumes "upstream w (last (sent (snd (reverse_geocode lat lon w)))) = Responded r"
    and "\<not> is_success r"
  shows "fst (reverse_geocode lat lon w) =
           Inl (HTTPException (status_code r) (''Geocoding service error: '' @ error_text r))"
  by (simp add: reverse_geocode_fst_unfold assms raise_for_status_def)

lemma reverse_geocode_malformed:
  assumes "upstream w (last (sent (snd (reverse_geocode lat lon w)))) = Responded r"
    and "is_success r"
    and "json_body r = Inl msg"
  shows "fst (reverse_geocode lat lon w) = Inl (HTTPException 500 (''Unexpected error: '' @ msg))"
  by (simp add: reverse_geocode_fst_unfold assms raise_for_status_def response_json_def)

lemma reverse_geocode_decoded:
  assumes "upstream w (last (sent (snd (reverse_geocode lat lon w)))) = Responded r"
    and "is_success r"
    and "json_body r = Inr body"
  shows "fst (reverse_geocode lat lon w) =
           (case py_getitem body ''features'' of
              Inl e \<Rightarrow> Inl (HTTPException 500 (''Unexpected error: '' @ str_exn e))
            | Inr features \<Rightarrow>
                if \<not> py_truthy features
                then Inl (HTTPException 500
                       (''Unexpected error: ''
                        @ str_exn (HTTPException 404
                            ''No location found for the given coordinates'')))
                else (case py_getitem0 features of
                        Inl e \<Rightarrow> Inl (HTTPException 500 (''Unexpected error: '' @ str_exn e))
                      | Inr first \<Rightarrow>
                          (case py_getitem first ''properties'' of
                             Inl e \<Rightarrow> Inl (HTTPException 500 (''Unexpected error: '' @ str_exn e))
                           | Inr props \<Rightarrow> Inr props)))"
proof (cases "py_getitem body ''features''")
  case (Inl e)
  then show ?thesis
    by (simp add: reverse_geocode_fst_unfold assms raise_for_status_def response_json_def
          except_clauses_getitem)
next
  case features: (Inr features)
  show ?thesis
  proof (cases "py_truthy features")
    case False
    then show ?thesis
      by (simp add: reverse_geocode_fst_unfold assms raise_for_status_def response_json_def
            features)
  next
    case True
    show ?thesis
    proof (cases "py_getitem0 features")
      case (Inl e)
      then show ?thesis
        by (simp add: reverse_geocode_fst_unfold assms raise_for_status_def response_json_def
              features True except_clauses_getitem0)
    next
      case first: (Inr first)
      show ?thesis
        by (cases "py_getitem first ''properties''")
           (simp_all add: reverse_geocode_fst_unfold assms raise_for_status_def
              response_json_def features True first except_clauses_getitem)
    qed
  qed
qed



lemma endpoint_search_places_get:
  "fst (search_places_get float_of_str query limit lang w) =
     (case fst (search_place query limit lang w) of
        Inl e \<Rightarrow> Inl e
      | Inr features \<Rightarrow> build_results float_of_str features)"
  by (simp add: search_places_get_def split: prod.splits sum.splits)

lemma endpoint_search_places:
  "fst (search_places float_of_str request w) =
     (case fst (search_place (ps_query request) (ps_limit request) (ps_lang request) w) of
        Inl e \<Rightarrow> Inl e
      | Inr features \<Rightarrow> build_results float_of_str features)"
  by (simp add: search_places_def split: prod.splits sum.splits)

lemma endpoint_search_with_location_priority_get:
  "fst (search_with_location_priority_get float_of_str query lat lon w) =
     (case fst (search_with_location query lat lon w) of
        Inl e \<Rightarrow> Inl e
      | Inr features \<Rightarrow> build_results float_of_str features)"
  by (simp add: search_with_location_priority_get_def split: prod.splits sum.splits)

lemma endpoint_search_with_location_priority:
  "fst (search_with_location_priority float_of_str request w) =
     (case fst (search_with_location (ls_query request) (ls_lat request) (ls_lon request) w) of
        Inl e \<Rightarrow> Inl e
      | Inr features \<Rightarrow> build_results float_of_str features)"
  by (simp add: search_with_location_priority_def split: prod.splits sum.splits)

lemma project_feature_properties:
  assumes "project_feature float_of_str f = Inr r"
  shows "py_getitem f ''properties'' = Inr (JObj (properties r))"
proof -
  from assms obtain props where p: "py_getitem f ''properties'' = Inr props"
    by (cases "py_getitem f ''properties''") (simp_all add: project_feature_def)
  from assms p obtain kvs where "props = JObj kvs" "properties r = kvs"
    by (cases props)
       (auto simp: project_feature_def PlaceResponse_init_def split: sum.splits option.splits)
  with p show ?thesis by simp
qed

lemma for_feature_in_Inr:
  "for_feature_in float_of_str fs acc = Inr rs \<Longrightarrow>
     \<exists>rs'. rs = acc @ rs' \<and> map (project_feature float_of_str) fs = map Inr rs'"
proof (induction fs arbitrary: acc)
  case Nil
  then show ?case by simp
next
  case (Cons f fs)
  then obtain r where r: "project_feature float_of_str f = Inr r"
    by (cases "project_feature float_of_str f") simp_all
  with Cons.prems have "for_feature_in float_of_str fs (acc @ [r]) = Inr rs" by simp
  from Cons.IH[OF this] obtain rs' where "rs = (acc @ [r]) @ rs'" "map (project_feature float_of_str) fs = map Inr rs'"
    by blast
  with r show ?case by simp
qed

lemma build_results_mirror:
  assumes "build_results float_of_str (JArr fs) = Inr rs"
  shows "length rs = length fs"
    and "map (\<lambda>f. py_getitem f ''properties'') fs = map (\<lambda>r. Inr (JObj (properties r))) rs"
    and "map (project_feature float_of_str) fs = map Inr rs"
proof -
  from assms have "for_feature_in float_of_str fs [] = Inr rs" by (simp add: build_results_def)
  from for_feature_in_Inr[OF this] have m: "map (project_feature float_of_str) fs = map Inr rs" by simp
  then show "map (project_feature float_of_str) fs = map Inr rs" .
  from m have len: "length fs = length rs" by (rule map_eq_imp_length_eq)
  then show "length rs = length fs" by simp
  show "map (\<lambda>f. py_getitem f ''properties'') fs = map (\<lambda>r. Inr (JObj (properties r))) rs"
  proof (rule nth_equalityI)
    show "length (map (\<lambda>f. py_getitem f ''properties'') fs) = length (map (\<lambda>r. Inr (JObj (properties r))) rs)"
      using len by simp
  next
    fix i assume "i < length (map (\<lambda>f. py_getitem f ''properties'') fs)"
    then have i: "i < length fs" by simp
    with m have "map (project_feature float_of_str) fs ! i = map Inr rs ! i" by simp
    with i len have "project_feature float_of_str (fs ! i) = Inr (rs ! i)" by simp
    from project_feature_properties[OF this] i len
    show "map (\<lambda>f. py_getitem f ''properties'') fs ! i = map (\<lambda>r. Inr (JObj (properties r))) rs ! i"
      by simp
  qed
qed

lemma py_getitem_not_http: "py_getitem v k = Inl e \<Longrightarrow> \<not> is_HTTPException e"
  by (cases v) (auto simp: is_HTTPException_def split: option.splits)

lemma py_get_not_http: "py_get v k = Inl e \<Longrightarrow> \<not> is_HTTPException e"
  by (cases v) (auto simp: is_HTTPException_def)

lemma PlaceResponse_init_not_http:
  "PlaceResponse_init float_of_str n c coords props = Inl e \<Longrightarrow> \<not> is_HTTPException e"
  by (auto simp: PlaceResponse_init_def is_HTTPException_def split: option.splits)

lemma project_feature_not_http:
  assumes "project_feature float_of_str f = Inl e"
  shows "\<not> is_HTTPException e"
  using assms py_getitem_not_http py_get_not_http PlaceResponse_init_not_http
  unfolding project_feature_def
  by (auto split: sum.splits)

lemma for_feature_in_not_http:
  "for_feature_in float_of_str fs acc = Inl e \<Longrightarrow> \<not> is_HTTPException e"
proof (induction fs arbitrary: acc)
  case Nil
  then show ?case by simp
next
  case (Cons f fs)
  show ?case
  proof (cases "project_feature float_of_str f")
    case (Inl e')
    with Cons.prems have "e = e'" by simp
    with Inl show ?thesis by (simp add: project_feature_not_http)
  next
    case (Inr r)
    with Cons.prems have "for_feature_in float_of_str fs (acc @ [r]) = Inl e" by simp
    then show ?thesis by (rule Cons.IH)
  qed
qed

lemma for_feature_in_fails:
  "f \<in> set fs \<Longrightarrow> project_feature float_of_str f = Inl e0 \<Longrightarrow> \<exists>e. for_feature_in float_of_str fs acc = Inl e"
proof (induction fs arbitrary: acc)
  case Nil
  then show ?case by simp
next
  case (Cons g fs)
  show ?case
  proof (cases "project_feature float_of_str g")
    case (Inl e')
    then show ?thesis by simp
  next
    case (Inr r)
    with Cons.prems have "f \<in> set fs" by auto
    from Cons.IH[OF this Cons.prems(2)] Inr show ?thesis by simp
  qed
qed

lemma project_feature_missing_key:
  assumes "map_of kvs ''properties'' = None \<or> map_of kvs ''geometry'' = None
           \<or> (\<exists>g. map_of kvs ''geometry'' = Some (JObj g) \<and> map_of g ''coordinates'' = None)"
  shows "\<exists>e. project_feature float_of_str (JObj kvs) = Inl e"
  using assms by (auto simp: project_feature_def split: sum.splits option.splits)

lemma build_results_fails:
  assumes "JObj kvs \<in> set fs"
    and "map_of kvs ''properties'' = None \<or> map_of kvs ''geometry'' = None
         \<or> (\<exists>g. map_of kvs ''geometry'' = Some (JObj g) \<and> map_of g ''coordinates'' = None)"
  shows "\<exists>e. build_results float_of_str (JArr fs) = Inl e \<and> \<not> is_HTTPException e"
proof -
  from project_feature_missing_key[OF assms(2)] obtain e0 where "project_feature float_of_str (JObj kvs) = Inl e0" ..
  from for_feature_in_fails[OF assms(1) this] obtain e where e: "for_feature_in float_of_str fs [] = Inl e" ..
  then have "\<not> is_HTTPException e" by (rule for_feature_in_not_http)
  with e show ?thesis by (simp add: build_results_def)
qed


lemma double_of_int_small:
  "double_of_int 0 = Some 0" "double_of_int 1 = Some 1" "double_of_int 2 = Some 2"
  "double_of_int 48 = Some 48"
  unfolding double_of_int_def Let_def by (simp_all add: bit_length.simps)


lemma search_place_outcome:
  "fst (search_place query limit lang w) =
     (case upstream w (last (sent (snd (search_place query limit lang w)))) of
        Raised msg \<Rightarrow> Inl (HTTPException 500 (''Unexpected error: '' @ msg))
      | Responded r \<Rightarrow>
          if \<not> is_success r
          then Inl (HTTPException (status_code r) (''Geocoding service error: '' @ error_text r))
          else (case json_body r of
                  Inl msg \<Rightarrow> Inl (HTTPException 500 (''Unexpected error: '' @ msg))
                | Inr body \<Rightarrow>
                    (case py_getitem body ''features'' of
                        Inl e \<Rightarrow> Inl (HTTPException 500 (''Unexpected error: '' @ str_exn e))
                      | Inr features \<Rightarrow> Inr features)))"
proof (cases "upstream w (last (sent (snd (search_place query limit lang w))))")
  case (Raised msg)
  from search_place_raised[OF this] show ?thesis by (simp add: Raised)
next
  case (Responded r)
  show ?thesis
  proof (cases "is_success r")
    case False
    from search_place_status[OF Responded this] show ?thesis by (simp add: Responded False)
  next
    case True
    show ?thesis
    proof (cases "json_body r")
      case (Inl msg)
      from search_place_malformed[OF Responded True this] show ?thesis
        by (simp add: Responded True Inl)
    next
      case (Inr body)
      from search_place_decoded[OF Responded True this] show ?thesis
        by (simp add: Responded True Inr)
    qed
  qed
qed

lemma search_with_location_outcome:
  "fst (search_with_location query lat lon w) =
     (case upstream w (last (sent (snd (search_with_location query lat lon w)))) of
        Raised msg \<Rightarrow> Inl (HTTPException 500 (''Unexpected error: '' @ msg))
      | Responded r \<Rightarrow>
          if \<not> is_success r
          then Inl (HTTPException (status_code r) (''Geocoding service error: '' @ error_text r))
          else (case json_body r of
                  Inl msg \<Rightarrow> Inl (HTTPException 500 (''Unexpected error: '' @ msg))
                | Inr body \<Rightarrow>
                    (case py_getitem body ''features'' of
                        Inl e \<Rightarrow> Inl (HTTPException 500 (''Unexpected error: '' @ str_exn e))
                      | Inr features \<Rightarrow> Inr features)))"
proof (cases "upstream w (last (sent (snd (search_with_location query lat lon w))))")
  case (Raised msg)
  from search_with_location_raised[OF this] show ?thesis by (simp add: Raised)
next
  case (Responded r)
  show ?thesis
  proof (cases "is_success r")
    case False
    from search_with_location_status[OF Responded this] show ?thesis by (simp add: Responded False)
  next
    case True
    show ?thesis
    proof (cases "json_body r")
      case (Inl msg)
      from search_with_location_malformed[OF Responded True this] show ?thesis
        by (simp add: Responded True Inl)
    next
      case (Inr body)
      from search_with_location_decoded[OF Responded True this] show ?thesis
        by (simp add: Responded True Inr)
    qed
  qed
qed

lemma reverse_geocode_outcome:
  "fst (reverse_geocode lat lon w) =
     (case upstream w (last (sent (snd (reverse_geocode lat lon w)))) of
        Raised msg \<Rightarrow> Inl (HTTPException 500 (''Unexpected error: '' @ msg))
      | Responded r \<Rightarrow>
          if \<not> is_success r
          then Inl (HTTPException (status_code r) (''Geocoding service error: '' @ error_text r))
          else (case json_body r of
                  Inl msg \<Rightarrow> Inl (HTTPException 500 (''Unexpected error: '' @ msg))
                | Inr body \<Rightarrow>
                    (case py_getitem body ''features'' of
                        Inl e \<Rightarrow> Inl (HTTPException 500 (''Unexpected error: '' @ str_exn e))
                      | Inr features \<Rightarrow>
                          if \<not> py_truthy features
                          then Inl (HTTPException 500
                                 (''Unexpected error: ''
                                  @ str_exn (HTTPException 404
                                      ''No location found for the given coordinates'')))
                          else (case py_getitem0 features of
                                  Inl e \<Rightarrow> Inl (HTTPException 500 (''Unexpected error: '' @ str_exn e))
                                | Inr first \<Rightarrow>
                                    (case py_getitem first ''properties'' of
                                       Inl e \<Rightarrow>
                                         Inl (HTTPException 500 (''Unexpected error: '' @ str_exn e))
                                     | Inr props \<Rightarrow> Inr props)))))"
proof (cases "upstream w (last (sent (snd (reverse_geocode lat lon w))))")
  case (Raised msg)
  from reverse_geocode_raised[OF this] show ?thesis by (simp add: Raised)
next
  case (Responded r)
  show ?thesis
  proof (cases "is_success r")
    case False
    from reverse_geocode_status[OF Responded this] show ?thesis by (simp add: Responded False)
  next
    case True
    show ?thesis
    proof (cases "json_body r")
      case (Inl msg)
      from reverse_geocode_malformed[OF Responded True this] show ?thesis
        by (simp add: Responded True Inl)
    next
      case (Inr body)
      from reverse_geocode_decoded[OF Responded True this] show ?thesis
        by (simp add: Responded True Inr)
    qed
  qed
qed

lemma reverse_geocode_endpoints:
  "fst (reverse_geocode_endpoint \<lparr>rg_lat = lat, rg_lon = lon\<rparr> w) = fst (reverse_geocode lat lon w)"
  "fst (reverse_geocode_endpoint_get lat lon w) = fst (reverse_geocode lat lon w)"
  by (simp_all add: reverse_geocode_endpoint_def reverse_geocode_endpoint_get_def)

lemma search_place_error_reaches_caller:
  assumes "fst (search_place query limit lang w) = Inl e"
  shows "fst (search_places float_of_str \<lparr>ps_query = query, ps_limit = limit, ps_lang = lang\<rparr> w) = Inl e"
    and "fst (search_places_get float_of_str query limit lang w) = Inl e"
  by (simp_all add: endpoint_search_places endpoint_search_places_get assms)

lemma search_with_location_error_reaches_caller:
  assumes "fst (search_with_location query lat lon w) = Inl e"
  shows "fst (search_with_location_priority float_of_str
               \<lparr>ls_query = query, ls_lat = lat, ls_lon = lon\<rparr> w) = Inl e"
    and "fst (search_with_location_priority_get float_of_str query lat lon w) = Inl e"
  by (simp_all add: endpoint_search_with_location_priority
        endpoint_search_with_location_priority_get assms)

lemma reverse_geocode_error_reaches_caller:
  assumes "fst (reverse_geocode lat lon w) = Inl e"
  shows "fst (reverse_geocode_endpoint \<lparr>rg_lat = lat, rg_lon = lon\<rparr> w) = Inl e"
    and "fst (reverse_geocode_endpoint_get lat lon w) = Inl e"
  by (simp_all add: reverse_geocode_endpoints assms)

section \<open>The claims\<close>

text \<open>
  C1. A reverse-geocode request whose upstream call succeeds with an empty feature
  list is to be answered 404, "No location found for the given coordinates", and never
  through the generic 500 path. The code raises that \<open>HTTPException\<close> inside the \<^verbatim>\<open>try\<close>
  block, where the \<^verbatim>\<open>except Exception\<close> clause catches it: at the coordinates below, with
  an upstream that answers 200 and no feature, both variants of the endpoint answer 500.
\<close>

theorem reverse_geocode_no_match_is_500:
  "fst (reverse_geocode_endpoint_get 52.519854 13.438596
          (fresh_world (respond_with 200 (feature_collection []))))
     = Inl (HTTPException 500
              ''Unexpected error: 404: No location found for the given coordinates'')
   \<and> fst (reverse_geocode_endpoint \<lparr>rg_lat = 52.519854, rg_lon = 13.438596\<rparr>
          (fresh_world (respond_with 200 (feature_collection []))))
     = Inl (HTTPException 500
              ''Unexpected error: 404: No location found for the given coordinates'')"
  by (simp add: reverse_geocode_endpoint_get_def reverse_geocode_endpoint_def
        reverse_geocode_def client_get_def fresh_world_def respond_with_def
        feature_collection_def raise_for_status_def is_success_def response_json_def
        show_nat.simps digits_def Let_def)

text \<open>
  C2. In each of the four search endpoints, when the upstream call succeeds with the
  feature list \<open>fs\<close> and the endpoint returns the list \<open>rs\<close>, the two have the same
  length and the properties of the i-th result are the properties mapping of the i-th
  feature, unchanged.
\<close>

theorem search_results_mirror_features:
  "(fst (search_place query limit lang w) = Inr (JArr fs)
      \<and> fst (search_places float_of_str \<lparr>ps_query = query, ps_limit = limit, ps_lang = lang\<rparr> w) = Inr rs \<longrightarrow>
    length rs = length fs
      \<and> map (\<lambda>f. py_getitem f ''properties'') fs = map (\<lambda>r. Inr (JObj (properties r))) rs)
   \<and> (fst (search_place query limit lang w) = Inr (JArr fs)
      \<and> fst (search_places_get float_of_str query limit lang w) = Inr rs \<longrightarrow>
    length rs = length fs
      \<and> map (\<lambda>f. py_getitem f ''properties'') fs = map (\<lambda>r. Inr (JObj (properties r))) rs)
   \<and> (fst (search_with_location query lat lon w) = Inr (JArr fs)
      \<and> fst (search_with_location_priority float_of_str \<lparr>ls_query = query, ls_lat = lat, ls_lon = lon\<rparr> w)
          = Inr rs \<longrightarrow>
    length rs = length fs
      \<and> map (\<lambda>f. py_getitem f ''properties'') fs = map (\<lambda>r. Inr (JObj (properties r))) rs)
   \<and> (fst (search_with_location query lat lon w) = Inr (JArr fs)
      \<and> fst (search_with_location_priority_get float_of_str query lat lon w) = Inr rs \<longrightarrow>
    length rs = length fs
      \<and> map (\<lambda>f. py_getitem f ''properties'') fs = map (\<lambda>r. Inr (JObj (properties r))) rs)"
  using build_results_mirror(1,2)[of float_of_str fs rs]
  by (auto simp: endpoint_search_places endpoint_search_places_get
        endpoint_search_with_location_priority endpoint_search_with_location_priority_get)

theorem search_results_mirror_features_witness:
  "fst (search_places_get sample_float_of_str ''Berlin'' (Some 2) None
          (fresh_world (respond_with 200 (feature_collection [berlin, nameless]))))
     = Inr [\<lparr>name = Some ''Berlin'', country = Some ''Germany'',
             coordinates = [Finite 13.438596, Finite 52.519854],
             properties = [(''osm_id'', JInt 240109189), (''name'', JStr ''Berlin''),
                           (''country'', JStr ''Germany'')]\<rparr>,
            \<lparr>name = None, country = None, coordinates = [Finite 2, Finite 48.8566],
             properties = [(''osm_id'', JInt 7444)]\<rparr>]
   \<and> fst (search_places sample_float_of_str \<lparr>ps_query = ''Berlin'', ps_limit = Some 2, ps_lang = None\<rparr>
            (fresh_world (respond_with 200 (feature_collection [berlin, nameless]))))
     = fst (search_places_get sample_float_of_str ''Berlin'' (Some 2) None
            (fresh_world (respond_with 200 (feature_collection [berlin, nameless]))))
   \<and> fst (search_with_location_priority_get sample_float_of_str ''Berlin'' 52.3879 13.0582
            (fresh_world (respond_with 200 (feature_collection [berlin, nameless]))))
     = fst (search_places_get sample_float_of_str ''Berlin'' (Some 2) None
            (fresh_world (respond_with 200 (feature_collection [berlin, nameless]))))
   \<and> fst (search_with_location_priority sample_float_of_str
              \<lparr>ls_query = ''Berlin'', ls_lat = 52.3879, ls_lon = 13.0582\<rparr>
            (fresh_world (respond_with 200 (feature_collection [berlin, nameless]))))
     = fst (search_places_get sample_float_of_str ''Berlin'' (Some 2) None
            (fresh_world (respond_with 200 (feature_collection [berlin, nameless]))))
   \<and> length [\<lparr>name = Some ''Berlin'', country = Some ''Germany'',
             coordinates = [Finite 13.438596, Finite 52.519854],
             properties = [(''osm_id'', JInt 240109189), (''name'', JStr ''Berlin''),
                           (''country'', JStr ''Germany'')]\<rparr>,
            \<lparr>name = None, country = None, coordinates = [Finite 2, Finite 48.8566],
             properties = [(''osm_id'', JInt 7444)]\<rparr>] = length [berlin, nameless]
   \<and> map (\<lambda>f. py_getitem f ''properties'') [berlin, nameless]
     = [Inr (JObj [(''osm_id'', JInt 240109189), (''name'', JStr ''Berlin''),
                   (''country'', JStr ''Germany'')]),
        Inr (JObj [(''osm_id'', JInt 7444)])]"
  using search_results_mirror_features
          [where float_of_str = sample_float_of_str and query = "''Berlin''"
             and limit = "Some 2" and lang = None
             and w = "fresh_world (respond_with 200 (feature_collection [berlin, nameless]))"
             and fs = "[berlin, nameless]"
             and rs = "[\<lparr>name = Some ''Berlin'', country = Some ''Germany'',
             coordinates = [Finite 13.438596, Finite 52.519854],
             properties = [(''osm_id'', JInt 240109189), (''name'', JStr ''Berlin''),
                           (''country'', JStr ''Germany'')]\<rparr>,
            \<lparr>name = None, country = None, coordinates = [Finite 2, Finite 48.8566],
             properties = [(''osm_id'', JInt 7444)]\<rparr>]"
             and lat = "52.3879" and lon = "13.0582"]
  by (simp add: search_places_get_def search_places_def search_place_def
        search_with_location_priority_get_def search_with_location_priority_def
        search_with_location_def client_get_def Let_def
        fresh_world_def respond_with_def raise_for_status_def is_success_def response_json_def
        feature_collection_def build_results_def project_feature_def PlaceResponse_init_def
        berlin_def nameless_def double_of_int_small)




text \<open>
  C4, as amended. A place search sends one request to the search route, whose
  parameters hold \<^verbatim>\<open>q\<close> always, \<^verbatim>\<open>limit\<close> exactly when a limit other than 0 was supplied
  and \<^verbatim>\<open>lang\<close> exactly when a language other than the empty string was supplied, each
  with the caller's value.
\<close>

theorem search_place_params:
  "\<exists>ps. sent (snd (search_place query limit lang w)) = sent w @ [(BASE_URL @ ''/api/'', ps)]
     \<and> map_of ps ''q'' = Some (PStr query)
     \<and> map_of ps ''limit'' = (case limit of None \<Rightarrow> None
                               | Some n \<Rightarrow> if n = 0 then None else Some (PInt n))
     \<and> map_of ps ''lang'' = (case lang of None \<Rightarrow> None
                              | Some s \<Rightarrow> if s = [] then None else Some (PStr s))"
  by (simp add: search_place_snd split: option.splits)

theorem search_place_params_witness:
  "\<exists>ps. sent (snd (search_place ''Paris'' (Some 2) (Some ''en'') (fresh_world unreachable)))
          = sent (fresh_world unreachable) @ [(BASE_URL @ ''/api/'', ps)]
     \<and> map_of ps ''q'' = Some (PStr ''Paris'')
     \<and> map_of ps ''limit'' = Some (PInt 2)
     \<and> map_of ps ''lang'' = Some (PStr ''en'')"
  using search_place_params [of "''Paris''" "Some 2" "Some ''en''" "fresh_world unreachable"]
  by simp

text \<open>
  C4 as stated fails: the guards are \<^verbatim>\<open>if limit:\<close> and \<^verbatim>\<open>if lang:\<close>, so a supplied limit
  of 0 and a supplied empty language are left out of the parameters.
\<close>

theorem search_place_omits_zero_limit_and_empty_lang:
  "sent (snd (search_place ''Berlin'' (Some 0) (Some '''') (fresh_world unreachable)))
     = [(''https://photon.komoot.io/api/'', [(''q'', PStr ''Berlin'')])]"
  by (simp add: search_place_snd fresh_world_def BASE_URL_def)

text \<open>
  C5. When the upstream answers the request of a place search, a location-biased
  search or a reverse geocode with a status that is not 2xx, the function raises an
  \<open>HTTPException\<close> with exactly that status and a detail that holds the upstream error's
  text.
\<close>

theorem upstream_status_is_propagated:
  assumes "\<not> is_success r"
  shows "(upstream w (last (sent (snd (search_place query limit lang w)))) = Responded r \<longrightarrow>
            fst (search_place query limit lang w)
              = Inl (HTTPException (status_code r) (''Geocoding service error: '' @ error_text r)))
       \<and> (upstream w (last (sent (snd (search_with_location query lat lon w)))) = Responded r \<longrightarrow>
            fst (search_with_location query lat lon w)
              = Inl (HTTPException (status_code r) (''Geocoding service error: '' @ error_text r)))
       \<and> (upstream w (last (sent (snd (reverse_geocode lat lon w)))) = Responded r \<longrightarrow>
            fst (reverse_geocode lat lon w)
              = Inl (HTTPException (status_code r) (''Geocoding service error: '' @ error_text r)))"
  using assms search_place_status search_with_location_status reverse_geocode_status
  by blast

theorem upstream_status_is_propagated_witness:
  "\<not> is_success \<lparr>status_code = 503, error_text = ''status 503'', json_body = Inr JNull\<rparr>
   \<and> fst (search_place ''Berlin'' (Some 2) None (fresh_world (respond_with 503 (Inr JNull))))
       = Inl (HTTPException 503 ''Geocoding service error: status 503'')
   \<and> fst (search_with_location ''Berlin'' 52.3879 13.0582
             (fresh_world (respond_with 503 (Inr JNull))))
       = Inl (HTTPException 503 ''Geocoding service error: status 503'')
   \<and> fst (reverse_geocode 52.3879 13.0582 (fresh_world (respond_with 503 (Inr JNull))))
       = Inl (HTTPException 503 ''Geocoding service error: status 503'')"
  using upstream_status_is_propagated
          [of "\<lparr>status_code = 503, error_text = ''status 503'', json_body = Inr JNull\<rparr>"
              "fresh_world (respond_with 503 (Inr JNull))" "''Berlin''" "Some 2" None
              "52.3879" "13.0582"]
  by (simp add: is_success_def fresh_world_def respond_with_def show_nat.simps digits_def)

text \<open>
  C6. For each of the three upstream operations and for both variants of its
  endpoint: when \<^verbatim>\<open>client.get\<close> raises (connection failure, timeout), or the body of a
  2xx response does not decode, the caller receives \<open>HTTPException\<close> 500 whose detail
  is "Unexpected error: " followed by the text of that exception. The three equations
  that follow give every outcome of the three functions: each failure other than a
  status that is not 2xx is a 500 whose detail is "Unexpected error: " followed by the
  text of the exception that was raised, and the endpoints pass every failure of their
  function on to the caller as it is.
\<close>

theorem other_failures_are_500:
  "(upstream w (last (sent (snd (search_place query limit lang w)))) = Raised msg \<longrightarrow>
      fst (search_place query limit lang w)
        = Inl (HTTPException 500 (''Unexpected error: '' @ msg))
      \<and> fst (search_places float_of_str \<lparr>ps_query = query, ps_limit = limit, ps_lang = lang\<rparr> w)
        = Inl (HTTPException 500 (''Unexpected error: '' @ msg))
      \<and> fst (search_places_get float_of_str query limit lang w)
        = Inl (HTTPException 500 (''Unexpected error: '' @ msg)))
   \<and> (upstream w (last (sent (snd (search_with_location query lat lon w)))) = Raised msg \<longrightarrow>
      fst (search_with_location query lat lon w)
        = Inl (HTTPException 500 (''Unexpected error: '' @ msg))
      \<and> fst (search_with_location_priority float_of_str
               \<lparr>ls_query = query, ls_lat = lat, ls_lon = lon\<rparr> w)
        = Inl (HTTPException 500 (''Unexpected error: '' @ msg))
      \<and> fst (search_with_location_priority_get float_of_str query lat lon w)
        = Inl (HTTPException 500 (''Unexpected error: '' @ msg)))
   \<and> (upstream w (last (sent (snd (reverse_geocode lat lon w)))) = Raised msg \<longrightarrow>
      fst (reverse_geocode lat lon w)
        = Inl (HTTPException 500 (''Unexpected error: '' @ msg))
      \<and> fst (reverse_geocode_endpoint \<lparr>rg_lat = lat, rg_lon = lon\<rparr> w)
        = Inl (HTTPException 500 (''Unexpected error: '' @ msg))
      \<and> fst (reverse_geocode_endpoint_get lat lon w)
        = Inl (HTTPException 500 (''Unexpected error: '' @ msg)))
   \<and> (upstream w (last (sent (snd (search_place query limit lang w)))) = Responded r
        \<and> is_success r \<and> json_body r = Inl msg \<longrightarrow>
      fst (search_place query limit lang w)
        = Inl (HTTPException 500 (''Unexpected error: '' @ msg))
      \<and> fst (search_places float_of_str \<lparr>ps_query = query, ps_limit = limit, ps_lang = lang\<rparr> w)
        = Inl (HTTPException 500 (''Unexpected error: '' @ msg))
      \<and> fst (search_places_get float_of_str query limit lang w)
        = Inl (HTTPException 500 (''Unexpected error: '' @ msg)))
   \<and> (upstream w (last (sent (snd (search_with_location query lat lon w)))) = Responded r
        \<and> is_success r \<and> json_body r = Inl msg \<longrightarrow>
      fst (search_with_location query lat lon w)
        = Inl (HTTPException 500 (''Unexpected error: '' @ msg))
      \<and> fst (search_with_location_priority float_of_str
               \<lparr>ls_query = query, ls_lat = lat, ls_lon = lon\<rparr> w)
        = Inl (HTTPException 500 (''Unexpected error: '' @ msg))
      \<and> fst (search_with_location_priority_get float_of_str query lat lon w)
        = Inl (HTTPException 500 (''Unexpected error: '' @ msg)))
   \<and> (upstream w (last (sent (snd (reverse_geocode lat lon w)))) = Responded r
        \<and> is_success r \<and> json_body r = Inl msg \<longrightarrow>
      fst (reverse_geocode lat lon w)
        = Inl (HTTPException 500 (''Unexpected error: '' @ msg))
      \<and> fst (reverse_geocode_endpoint \<lparr>rg_lat = lat, rg_lon = lon\<rparr> w)
        = Inl (HTTPException 500 (''Unexpected error: '' @ msg))
      \<and> fst (reverse_geocode_endpoint_get lat lon w)
        = Inl (HTTPException 500 (''Unexpected error: '' @ msg)))
   \<and> fst (search_place query limit lang w) =
     (case upstream w (last (sent (snd (search_place query limit lang w)))) of
        Raised msg \<Rightarrow> Inl (HTTPException 500 (''Unexpected error: '' @ msg))
      | Responded r \<Rightarrow>
          if \<not> is_success r
          then Inl (HTTPException (status_code r) (''Geocoding service error: '' @ error_text r))
          else (case json_body r of
                  Inl msg \<Rightarrow> Inl (HTTPException 500 (''Unexpected error: '' @ msg))
                | Inr body \<Rightarrow>
                    (case py_getitem body ''features'' of
                        Inl e \<Rightarrow> Inl (HTTPException 500 (''Unexpected error: '' @ str_exn e))
                      | Inr features \<Rightarrow> Inr features)))
   \<and> fst (search_with_location query lat lon w) =
     (case upstream w (last (sent (snd (search_with_location query lat lon w)))) of
        Raised msg \<Rightarrow> Inl (HTTPException 500 (''Unexpected error: '' @ msg))
      | Responded r \<Rightarrow>
          if \<not> is_success r
          then Inl (HTTPException (status_code r) (''Geocoding service error: '' @ error_text r))
          else (case json_body r of
                  Inl msg \<Rightarrow> Inl (HTTPException 500 (''Unexpected error: '' @ msg))
                | Inr body \<Rightarrow>
                    (case py_getitem body ''features'' of
                        Inl e \<Rightarrow> Inl (HTTPException 500 (''Unexpected error: '' @ str_exn e))
                      | Inr features \<Rightarrow> Inr features)))
   \<and> fst (reverse_geocode lat lon w) =
     (case upstream w (last (sent (snd (reverse_geocode lat lon w)))) of
        Raised msg \<Rightarrow> Inl (HTTPException 500 (''Unexpected error: '' @ msg))
      | Responded r \<Rightarrow>
          if \<not> is_success r
          then Inl (HTTPException (status_code r) (''Geocoding service error: '' @ error_text r))
          else (case json_body r of
                  Inl msg \<Rightarrow> Inl (HTTPException 500 (''Unexpected error: '' @ msg))
                | Inr body \<Rightarrow>
                    (case py_getitem body ''features'' of
                        Inl e \<Rightarrow> Inl (HTTPException 500 (''Unexpected error: '' @ str_exn e))
                      | Inr features \<Rightarrow>
                          if \<not> py_truthy features
                          then Inl (HTTPException 500
                                 (''Unexpected error: ''
                                  @ str_exn (HTTPException 404
                                      ''No location found for the given coordinates'')))
                          else (case py_getitem0 features of
                                  Inl e \<Rightarrow> Inl (HTTPException 500 (''Unexpected error: '' @ str_exn e))
                                | Inr first \<Rightarrow>
                                    (case py_getitem first ''properties'' of
                                       Inl e \<Rightarrow>
                                         Inl (HTTPException 500 (''Unexpected error: '' @ str_exn e))
                                     | Inr props \<Rightarrow> Inr props)))))
   \<and> fst (search_places float_of_str \<lparr>ps_query = query, ps_limit = limit, ps_lang = lang\<rparr> w) =
     (case fst (search_place query limit lang w) of
        Inl e \<Rightarrow> Inl e
      | Inr features \<Rightarrow> build_results float_of_str features)
   \<and> fst (search_places_get float_of_str query limit lang w) =
     (case fst (search_place query limit lang w) of
        Inl e \<Rightarrow> Inl e
      | Inr features \<Rightarrow> build_results float_of_str features)
   \<and> fst (search_with_location_priority float_of_str
          \<lparr>ls_query = query, ls_lat = lat, ls_lon = lon\<rparr> w) =
     (case fst (search_with_location query lat lon w) of
        Inl e \<Rightarrow> Inl e
      | Inr features \<Rightarrow> build_results float_of_str features)
   \<and> fst (search_with_location_priority_get float_of_str query lat lon w) =
     (case fst (search_with_location query lat lon w) of
        Inl e \<Rightarrow> Inl e
      | Inr features \<Rightarrow> build_results float_of_str features)
   \<and> fst (reverse_geocode_endpoint \<lparr>rg_lat = lat, rg_lon = lon\<rparr> w) = fst (reverse_geocode lat lon w)
   \<and> fst (reverse_geocode_endpoint_get lat lon w) = fst (reverse_geocode lat lon w)"
proof -
  have c1: "upstream w (last (sent (snd (search_place query limit lang w)))) = Raised msg \<longrightarrow>
      fst (search_place query limit lang w)
        = Inl (HTTPException 500 (''Unexpected error: '' @ msg))
      \<and> fst (search_places float_of_str \<lparr>ps_query = query, ps_limit = limit, ps_lang = lang\<rparr> w)
        = Inl (HTTPException 500 (''Unexpected error: '' @ msg))
      \<and> fst (search_places_get float_of_str query limit lang w)
        = Inl (HTTPException 500 (''Unexpected error: '' @ msg))"
  proof
    assume h: "upstream w (last (sent (snd (search_place query limit lang w)))) = Raised msg"
    have f: "fst (search_place query limit lang w) = Inl (HTTPException 500 (''Unexpected error: '' @ msg))"
      using h by (rule search_place_raised)
    from f search_place_error_reaches_caller[OF f, of float_of_str]
    show "fst (search_place query limit lang w)
        = Inl (HTTPException 500 (''Unexpected error: '' @ msg))
      \<and> fst (search_places float_of_str \<lparr>ps_query = query, ps_limit = limit, ps_lang = lang\<rparr> w)
        = Inl (HTTPException 500 (''Unexpected error: '' @ msg))
      \<and> fst (search_places_get float_of_str query limit lang w)
        = Inl (HTTPException 500 (''Unexpected error: '' @ msg))"
      by simp
  qed
  have c2: "upstream w (last (sent (snd (search_with_location query lat lon w)))) = Raised msg \<longrightarrow>
      fst (search_with_location query lat lon w)
        = Inl (HTTPException 500 (''Unexpected error: '' @ msg))
      \<and> fst (search_with_location_priority float_of_str
               \<lparr>ls_query = query, ls_lat = lat, ls_lon = lon\<rparr> w)
        = Inl (HTTPException 500 (''Unexpected error: '' @ msg))
      \<and> fst (search_with_location_priority_get float_of_str query lat lon w)
        = Inl (HTTPException 500 (''Unexpected error: '' @ msg))"
  proof
    assume h: "upstream w (last (sent (snd (search_with_location query lat lon w)))) = Raised msg"
    have f: "fst (search_with_location query lat lon w) = Inl (HTTPException 500 (''Unexpected error: '' @ msg))"
      using h by (rule search_with_location_raised)
    from f search_with_location_error_reaches_caller[OF f, of float_of_str]
    show "fst (search_with_location query lat lon w)
        = Inl (HTTPException 500 (''Unexpected error: '' @ msg))
      \<and> fst (search_with_location_priority float_of_str
               \<lparr>ls_query = query, ls_lat = lat, ls_lon = lon\<rparr> w)
        = Inl (HTTPException 500 (''Unexpected error: '' @ msg))
      \<and> fst (search_with_location_priority_get float_of_str query lat lon w)
        = Inl (HTTPException 500 (''Unexpected error: '' @ msg))"
      by simp
  qed
  have c3: "upstream w (last (sent (snd (reverse_geocode lat lon w)))) = Raised msg \<longrightarrow>
      fst (reverse_geocode lat lon w)
        = Inl (HTTPException 500 (''Unexpected error: '' @ msg))
      \<and> fst (reverse_geocode_endpoint \<lparr>rg_lat = lat, rg_lon = lon\<rparr> w)
        = Inl (HTTPException 500 (''Unexpected error: '' @ msg))
      \<and> fst (reverse_geocode_endpoint_get lat lon w)
        = Inl (HTTPException 500 (''Unexpected error: '' @ msg))"
  proof
    assume h: "upstream w (last (sent (snd (reverse_geocode lat lon w)))) = Raised msg"
    have f: "fst (reverse_geocode lat lon w) = Inl (HTTPException 500 (''Unexpected error: '' @ msg))"
      using h by (rule reverse_geocode_raised)
    from f reverse_geocode_error_reaches_caller[OF f]
    show "fst (reverse_geocode lat lon w)
        = Inl (HTTPException 500 (''Unexpected error: '' @ msg))
      \<and> fst (reverse_geocode_endpoint \<lparr>rg_lat = lat, rg_lon = lon\<rparr> w)
        = Inl (HTTPException 500 (''Unexpected error: '' @ msg))
      \<and> fst (reverse_geocode_endpoint_get lat lon w)
        = Inl (HTTPException 500 (''Unexpected error: '' @ msg))"
      by simp
  qed
  have c4: "upstream w (last (sent (snd (search_place query limit lang w)))) = Responded r
        \<and> is_success r \<and> json_body r = Inl msg \<longrightarrow>
      fst (search_place query limit lang w)
        = Inl (HTTPException 500 (''Unexpected error: '' @ msg))
      \<and> fst (search_places float_of_str \<lparr>ps_query = query, ps_limit = limit, ps_lang = lang\<rparr> w)
        = Inl (HTTPException 500 (''Unexpected error: '' @ msg))
      \<and> fst (search_places_get float_of_str query limit lang w)
        = Inl (HTTPException 500 (''Unexpected error: '' @ msg))"
  proof
    assume h: "upstream w (last (sent (snd (search_place query limit lang w)))) = Responded r
        \<and> is_success r \<and> json_body r = Inl msg"
    then have f: "fst (search_place query limit lang w) = Inl (HTTPException 500 (''Unexpected error: '' @ msg))"
      by (simp add: search_place_malformed)
    from f search_place_error_reaches_caller[OF f, of float_of_str]
    show "fst (search_place query limit lang w)
        = Inl (HTTPException 500 (''Unexpected error: '' @ msg))
      \<and> fst (search_places float_of_str \<lparr>ps_query = query, ps_limit = limit, ps_lang = lang\<rparr> w)
        = Inl (HTTPException 500 (''Unexpected error: '' @ msg))
      \<and> fst (search_places_get float_of_str query limit lang w)
        = Inl (HTTPException 500 (''Unexpected error: '' @ msg))"
      by simp
  qed
  have c5: "upstream w (last (sent (snd (search_with_location query lat lon w)))) = Responded r
        \<and> is_success r \<and> json_body r = Inl msg \<longrightarrow>
      fst (search_with_location query lat lon w)
        = Inl (HTTPException 500 (''Unexpected error: '' @ msg))
      \<and> fst (search_with_location_priority float_of_str
               \<lparr>ls_query = query, ls_lat = lat, ls_lon = lon\<rparr> w)
        = Inl (HTTPException 500 (''Unexpected error: '' @ msg))
      \<and> fst (search_with_location_priority_get float_of_str query lat lon w)
        = Inl (HTTPException 500 (''Unexpected error: '' @ msg))"
  proof
    assume h: "upstream w (last (sent (snd (search_with_location query lat lon w)))) = Responded r
        \<and> is_success r \<and> json_body r = Inl msg"
    then have f: "fst (search_with_location query lat lon w) = Inl (HTTPException 500 (''Unexpected error: '' @ msg))"
      by (simp add: search_with_location_malformed)
    from f search_with_location_error_reaches_caller[OF f, of float_of_str]
    show "fst (search_with_location query lat lon w)
        = Inl (HTTPException 500 (''Unexpected error: '' @ msg))
      \<and> fst (search_with_location_priority float_of_str
               \<lparr>ls_query = query, ls_lat = lat, ls_lon = lon\<rparr> w)
        = Inl (HTTPException 500 (''Unexpected error: '' @ msg))
      \<and> fst (search_with_location_priority_get float_of_str query lat lon w)
        = Inl (HTTPException 500 (''Unexpected error: '' @ msg))"
      by simp
  qed
  have c6: "upstream w (last (sent (snd (reverse_geocode lat lon w)))) = Responded r
        \<and> is_success r \<and> json_body r = Inl msg \<longrightarrow>
      fst (reverse_geocode lat lon w)
        = Inl (HTTPException 500 (''Unexpected error: '' @ msg))
      \<and> fst (reverse_geocode_endpoint \<lparr>rg_lat = lat, rg_lon = lon\<rparr> w)
        = Inl (HTTPException 500 (''Unexpected error: '' @ msg))
      \<and> fst (reverse_geocode_endpoint_get lat lon w)
        = Inl (HTTPException 500 (''Unexpected error: '' @ msg))"
  proof
    assume h: "upstream w (last (sent (snd (reverse_geocode lat lon w)))) = Responded r
        \<and> is_success r \<and> json_body r = Inl msg"
    then have f: "fst (reverse_geocode lat lon w) = Inl (HTTPException 500 (''Unexpected error: '' @ msg))"
      by (simp add: reverse_geocode_malformed)
    from f reverse_geocode_error_reaches_caller[OF f]
    show "fst (reverse_geocode lat lon w)
        = Inl (HTTPException 500 (''Unexpected error: '' @ msg))
      \<and> fst (reverse_geocode_endpoint \<lparr>rg_lat = lat, rg_lon = lon\<rparr> w)
        = Inl (HTTPException 500 (''Unexpected error: '' @ msg))
      \<and> fst (reverse_geocode_endpoint_get lat lon w)
        = Inl (HTTPException 500 (''Unexpected error: '' @ msg))"
      by simp
  qed
  have o1: "fst (search_place query limit lang w) =
     (case upstream w (last (sent (snd (search_place query limit lang w)))) of
        Raised msg \<Rightarrow> Inl (HTTPException 500 (''Unexpected error: '' @ msg))
      | Responded r \<Rightarrow>
          if \<not> is_success r
          then Inl (HTTPException (status_code r) (''Geocoding service error: '' @ error_text r))
          else (case json_body r of
                  Inl msg \<Rightarrow> Inl (HTTPException 500 (''Unexpected error: '' @ msg))
                | Inr body \<Rightarrow>
                    (case py_getitem body ''features'' of
                        Inl e \<Rightarrow> Inl (HTTPException 500 (''Unexpected error: '' @ str_exn e))
                      | Inr features \<Rightarrow> Inr features)))"
    by (rule search_place_outcome)
  have o2: "fst (search_with_location query lat lon w) =
     (case upstream w (last (sent (snd (search_with_location query lat lon w)))) of
        Raised msg \<Rightarrow> Inl (HTTPException 500 (''Unexpected error: '' @ msg))
      | Responded r \<Rightarrow>
          if \<not> is_success r
          then Inl (HTTPException (status_code r) (''Geocoding service error: '' @ error_text r))
          else (case json_body r of
                  Inl msg \<Rightarrow> Inl (HTTPException 500 (''Unexpected error: '' @ msg))
                | Inr body \<Rightarrow>
                    (case py_getitem body ''features'' of
                        Inl e \<Rightarrow> Inl (HTTPException 500 (''Unexpected error: '' @ str_exn e))
                      | Inr features \<Rightarrow> Inr features)))"
    by (rule search_with_location_outcome)
  have o3: "fst (reverse_geocode lat lon w) =
     (case upstream w (last (sent (snd (reverse_geocode lat lon w)))) of
        Raised msg \<Rightarrow> Inl (HTTPException 500 (''Unexpected error: '' @ msg))
      | Responded r \<Rightarrow>
          if \<not> is_success r
          then Inl (HTTPException (status_code r) (''Geocoding service error: '' @ error_text r))
          else (case json_body r of
                  Inl msg \<Rightarrow> Inl (HTTPException 500 (''Unexpected error: '' @ msg))
                | Inr body \<Rightarrow>
                    (case py_getitem body ''features'' of
                        Inl e \<Rightarrow> Inl (HTTPException 500 (''Unexpected error: '' @ str_exn e))
                      | Inr features \<Rightarrow>
                          if \<not> py_truthy features
                          then Inl (HTTPException 500
                                 (''Unexpected error: ''
                                  @ str_exn (HTTPException 404
                                      ''No location found for the given coordinates'')))
                          else (case py_getitem0 features of
                                  Inl e \<Rightarrow> Inl (HTTPException 500 (''Unexpected error: '' @ str_exn e))
                                | Inr first \<Rightarrow>
                                    (case py_getitem first ''properties'' of
                                       Inl e \<Rightarrow>
                                         Inl (HTTPException 500 (''Unexpected error: '' @ str_exn e))
                                     | Inr props \<Rightarrow> Inr props)))))"
    by (rule reverse_geocode_outcome)
  have p1: "fst (search_places float_of_str \<lparr>ps_query = query, ps_limit = limit, ps_lang = lang\<rparr> w) =
     (case fst (search_place query limit lang w) of
        Inl e \<Rightarrow> Inl e
      | Inr features \<Rightarrow> build_results float_of_str features)"
    by (simp add: endpoint_search_places)
  have p2: "fst (search_places_get float_of_str query limit lang w) =
     (case fst (search_place query limit lang w) of
        Inl e \<Rightarrow> Inl e
      | Inr features \<Rightarrow> build_results float_of_str features)"
    by (rule endpoint_search_places_get)
  have p3: "fst (search_with_location_priority float_of_str
          \<lparr>ls_query = query, ls_lat = lat, ls_lon = lon\<rparr> w) =
     (case fst (search_with_location query lat lon w) of
        Inl e \<Rightarrow> Inl e
      | Inr features \<Rightarrow> build_results float_of_str features)"
    by (simp add: endpoint_search_with_location_priority)
  have p4: "fst (search_with_location_priority_get float_of_str query lat lon w) =
     (case fst (search_with_location query lat lon w) of
        Inl e \<Rightarrow> Inl e
      | Inr features \<Rightarrow> build_results float_of_str features)"
    by (rule endpoint_search_with_location_priority_get)
  have p5: "fst (reverse_geocode_endpoint \<lparr>rg_lat = lat, rg_lon = lon\<rparr> w) = fst (reverse_geocode lat lon w)"
    by (rule reverse_geocode_endpoints(1))
  have p6: "fst (reverse_geocode_endpoint_get lat lon w) = fst (reverse_geocode lat lon w)"
    by (rule reverse_geocode_endpoints(2))
  from c1 c2 c3 c4 c5 c6 o1 o2 o3 p1 p2 p3 p4 p5 p6 show ?thesis by blast
qed

theorem other_failures_are_500_witness:
  "fst (search_place ''Berlin'' None None
            (fresh_world unreachable))
     = Inl (HTTPException 500 ''Unexpected error: All connection attempts failed'')
   \<and> fst (search_places sample_float_of_str \<lparr>ps_query = ''Berlin'', ps_limit = None, ps_lang = None\<rparr>
            (fresh_world unreachable))
     = Inl (HTTPException 500 ''Unexpected error: All connection attempts failed'')
   \<and> fst (search_places_get sample_float_of_str ''Berlin'' None None
            (fresh_world unreachable))
     = Inl (HTTPException 500 ''Unexpected error: All connection attempts failed'')
   \<and> fst (search_with_location ''Berlin'' 52.3879 13.0582
            (fresh_world unreachable))
     = Inl (HTTPException 500 ''Unexpected error: All connection attempts failed'')
   \<and> fst (search_with_location_priority sample_float_of_str
            \<lparr>ls_query = ''Berlin'', ls_lat = 52.3879, ls_lon = 13.0582\<rparr>
            (fresh_world unreachable))
     = Inl (HTTPException 500 ''Unexpected error: All connection attempts failed'')
   \<and> fst (search_with_location_priority_get sample_float_of_str ''Berlin'' 52.3879 13.0582
            (fresh_world unreachable))
     = Inl (HTTPException 500 ''Unexpected error: All connection attempts failed'')
   \<and> fst (reverse_geocode 52.3879 13.0582
            (fresh_world unreachable))
     = Inl (HTTPException 500 ''Unexpected error: All connection attempts failed'')
   \<and> fst (reverse_geocode_endpoint \<lparr>rg_lat = 52.3879, rg_lon = 13.0582\<rparr>
            (fresh_world unreachable))
     = Inl (HTTPException 500 ''Unexpected error: All connection attempts failed'')
   \<and> fst (reverse_geocode_endpoint_get 52.3879 13.0582
            (fresh_world unreachable))
     = Inl (HTTPException 500 ''Unexpected error: All connection attempts failed'')
   \<and> fst (search_place ''Berlin'' None None
            (fresh_world (respond_with 200 (Inl ''Expecting value: line 1 column 1 (char 0)''))))
     = Inl (HTTPException 500 ''Unexpected error: Expecting value: line 1 column 1 (char 0)'')
   \<and> fst (search_places sample_float_of_str \<lparr>ps_query = ''Berlin'', ps_limit = None, ps_lang = None\<rparr>
            (fresh_world (respond_with 200 (Inl ''Expecting value: line 1 column 1 (char 0)''))))
     = Inl (HTTPException 500 ''Unexpected error: Expecting value: line 1 column 1 (char 0)'')
   \<and> fst (search_places_get sample_float_of_str ''Berlin'' None None
            (fresh_world (respond_with 200 (Inl ''Expecting value: line 1 column 1 (char 0)''))))
     = Inl (HTTPException 500 ''Unexpected error: Expecting value: line 1 column 1 (char 0)'')
   \<and> fst (search_with_location ''Berlin'' 52.3879 13.0582
            (fresh_world (respond_with 200 (Inl ''Expecting value: line 1 column 1 (char 0)''))))
     = Inl (HTTPException 500 ''Unexpected error: Expecting value: line 1 column 1 (char 0)'')
   \<and> fst (search_with_location_priority sample_float_of_str
            \<lparr>ls_query = ''Berlin'', ls_lat = 52.3879, ls_lon = 13.0582\<rparr>
            (fresh_world (respond_with 200 (Inl ''Expecting value: line 1 column 1 (char 0)''))))
     = Inl (HTTPException 500 ''Unexpected error: Expecting value: line 1 column 1 (char 0)'')
   \<and> fst (search_with_location_priority_get sample_float_of_str ''Berlin'' 52.3879 13.0582
            (fresh_world (respond_with 200 (Inl ''Expecting value: line 1 column 1 (char 0)''))))
     = Inl (HTTPException 500 ''Unexpected error: Expecting value: line 1 column 1 (char 0)'')
   \<and> fst (reverse_geocode 52.3879 13.0582
            (fresh_world (respond_with 200 (Inl ''Expecting value: line 1 column 1 (char 0)''))))
     = Inl (HTTPException 500 ''Unexpected error: Expecting value: line 1 column 1 (char 0)'')
   \<and> fst (reverse_geocode_endpoint \<lparr>rg_lat = 52.3879, rg_lon = 13.0582\<rparr>
            (fresh_world (respond_with 200 (Inl ''Expecting value: line 1 column 1 (char 0)''))))
     = Inl (HTTPException 500 ''Unexpected error: Expecting value: line 1 column 1 (char 0)'')
   \<and> fst (reverse_geocode_endpoint_get 52.3879 13.0582
            (fresh_world (respond_with 200 (Inl ''Expecting value: line 1 column 1 (char 0)''))))
     = Inl (HTTPException 500 ''Unexpected error: Expecting value: line 1 column 1 (char 0)'')
   \<and> fst (search_place ''Berlin'' None None
            (fresh_world (respond_with 200 (Inr (JObj [])))))
     = Inl (HTTPException 500 (''Unexpected error: '' @ [CHR 39] @ ''features'' @ [CHR 39]))
   \<and> fst (search_places sample_float_of_str \<lparr>ps_query = ''Berlin'', ps_limit = None, ps_lang = None\<rparr>
            (fresh_world (respond_with 200 (Inr (JObj [])))))
     = Inl (HTTPException 500 (''Unexpected error: '' @ [CHR 39] @ ''features'' @ [CHR 39]))
   \<and> fst (search_places_get sample_float_of_str ''Berlin'' None None
            (fresh_world (respond_with 200 (Inr (JObj [])))))
     = Inl (HTTPException 500 (''Unexpected error: '' @ [CHR 39] @ ''features'' @ [CHR 39]))
   \<and> fst (search_with_location ''Berlin'' 52.3879 13.0582
            (fresh_world (respond_with 200 (Inr (JObj [])))))
     = Inl (HTTPException 500 (''Unexpected error: '' @ [CHR 39] @ ''features'' @ [CHR 39]))
   \<and> fst (search_with_location_priority sample_float_of_str
            \<lparr>ls_query = ''Berlin'', ls_lat = 52.3879, ls_lon = 13.0582\<rparr>
            (fresh_world (respond_with 200 (Inr (JObj [])))))
     = Inl (HTTPException 500 (''Unexpected error: '' @ [CHR 39] @ ''features'' @ [CHR 39]))
   \<and> fst (search_with_location_priority_get sample_float_of_str ''Berlin'' 52.3879 13.0582
            (fresh_world (respond_with 200 (Inr (JObj [])))))
     = Inl (HTTPException 500 (''Unexpected error: '' @ [CHR 39] @ ''features'' @ [CHR 39]))
   \<and> fst (reverse_geocode 52.3879 13.0582
            (fresh_world (respond_with 200 (Inr (JObj [])))))
     = Inl (HTTPException 500 (''Unexpected error: '' @ [CHR 39] @ ''features'' @ [CHR 39]))
   \<and> fst (reverse_geocode_endpoint \<lparr>rg_lat = 52.3879, rg_lon = 13.0582\<rparr>
            (fresh_world (respond_with 200 (Inr (JObj [])))))
     = Inl (HTTPException 500 (''Unexpected error: '' @ [CHR 39] @ ''features'' @ [CHR 39]))
   \<and> fst (reverse_geocode_endpoint_get 52.3879 13.0582
            (fresh_world (respond_with 200 (Inr (JObj [])))))
     = Inl (HTTPException 500 (''Unexpected error: '' @ [CHR 39] @ ''features'' @ [CHR 39]))"
  using other_failures_are_500
          [where w = "fresh_world unreachable" and msg = "''All connection attempts failed''"
             and float_of_str = sample_float_of_str and query = "''Berlin''" and limit = None and lang = None
             and lat = "52.3879" and lon = "13.0582"]
        other_failures_are_500
          [where w = "fresh_world (respond_with 200 (Inl ''Expecting value: line 1 column 1 (char 0)''))"
             and msg = "''Expecting value: line 1 column 1 (char 0)''"
             and r = "\<lparr>status_code = 200, error_text = ''status 200'',
                       json_body = Inl ''Expecting value: line 1 column 1 (char 0)''\<rparr>"
             and float_of_str = sample_float_of_str and query = "''Berlin''" and limit = None and lang = None
             and lat = "52.3879" and lon = "13.0582"]
        other_failures_are_500
          [where w = "fresh_world (respond_with 200 (Inr (JObj [])))"
             and float_of_str = sample_float_of_str and query = "''Berlin''" and limit = None and lang = None
             and lat = "52.3879" and lon = "13.0582"]
  by (simp add: fresh_world_def unreachable_def respond_with_def is_success_def
        show_nat.simps digits_def search_place_last search_with_location_last
        reverse_geocode_last)

text \<open>
  C7. A location-biased search sends \<^verbatim>\<open>q\<close>, \<^verbatim>\<open>lat\<close> and \<^verbatim>\<open>lon\<close>, all three, in its one
  request. Both variants of the endpoint declare \<^verbatim>\<open>query\<close>, \<^verbatim>\<open>lat\<close> and \<^verbatim>\<open>lon\<close> required:
  a request that lacks \<^verbatim>\<open>lat\<close> or \<^verbatim>\<open>lon\<close> is rejected with the world unchanged, that is,
  with nothing sent upstream, and a request that carries all three reaches the
  endpoint with them.
\<close>

theorem location_search_params_required:
  "sent (snd (search_with_location query lat lon w))
     = sent w @ [(BASE_URL @ ''/api/'',
                  [(''q'', PStr query), (''lat'', PFloat lat), (''lon'', PFloat lon)])]
   \<and> (lat' = None \<or> lon' = None \<longrightarrow>
        route_get_search_location float_of_str query' lat' lon' w
          = (Rejected (missing_params query' lat' lon'), w)
        \<and> route_post_search_location float_of_str query' lat' lon' w
          = (Rejected (missing_params query' lat' lon'), w)
        \<and> missing_params query' lat' lon' \<noteq> [])
   \<and> route_get_search_location float_of_str (Some query) (Some lat) (Some lon) w
       = (Handled (fst (search_with_location_priority_get float_of_str query lat lon w)),
          snd (search_with_location_priority_get float_of_str query lat lon w))
   \<and> route_post_search_location float_of_str (Some query) (Some lat) (Some lon) w
       = (Handled (fst (search_with_location_priority float_of_str
                          \<lparr>ls_query = query, ls_lat = lat, ls_lon = lon\<rparr> w)),
          snd (search_with_location_priority float_of_str
                 \<lparr>ls_query = query, ls_lat = lat, ls_lon = lon\<rparr> w))
   \<and> sent (snd (search_with_location_priority_get float_of_str query lat lon w))
       = sent (snd (search_with_location query lat lon w))
   \<and> sent (snd (search_with_location_priority float_of_str
                    \<lparr>ls_query = query, ls_lat = lat, ls_lon = lon\<rparr> w))
       = sent (snd (search_with_location query lat lon w))"
proof -
  have a: "sent (snd (search_with_location query lat lon w))
     = sent w @ [(BASE_URL @ ''/api/'',
                  [(''q'', PStr query), (''lat'', PFloat lat), (''lon'', PFloat lon)])]"
    by (simp add: search_with_location_snd)
  have b: "lat' = None \<or> lon' = None \<longrightarrow>
        route_get_search_location float_of_str query' lat' lon' w
          = (Rejected (missing_params query' lat' lon'), w)
        \<and> route_post_search_location float_of_str query' lat' lon' w
          = (Rejected (missing_params query' lat' lon'), w)
        \<and> missing_params query' lat' lon' \<noteq> []"
    by (auto simp: route_get_search_location_def route_post_search_location_def
          missing_params_def bind_parameter_def
          search_with_location_priority_get_parameters_def LocationSearchRequest_fields_def
          split: option.splits)
  have c: "route_get_search_location float_of_str (Some query) (Some lat) (Some lon) w
       = (Handled (fst (search_with_location_priority_get float_of_str query lat lon w)),
          snd (search_with_location_priority_get float_of_str query lat lon w))"
    by (simp add: route_get_search_location_def bind_parameter_def
          search_with_location_priority_get_parameters_def split: prod.splits)
  have d: "route_post_search_location float_of_str (Some query) (Some lat) (Some lon) w
       = (Handled (fst (search_with_location_priority float_of_str
                          \<lparr>ls_query = query, ls_lat = lat, ls_lon = lon\<rparr> w)),
          snd (search_with_location_priority float_of_str
                 \<lparr>ls_query = query, ls_lat = lat, ls_lon = lon\<rparr> w))"
    by (simp add: route_post_search_location_def bind_parameter_def
          LocationSearchRequest_fields_def split: prod.splits)
  have e: "sent (snd (search_with_location_priority_get float_of_str query lat lon w))
       = sent (snd (search_with_location query lat lon w))"
    by (simp add: search_with_location_priority_get_def split: prod.splits sum.splits)
  have f: "sent (snd (search_with_location_priority float_of_str
                    \<lparr>ls_query = query, ls_lat = lat, ls_lon = lon\<rparr> w))
       = sent (snd (search_with_location query lat lon w))"
    by (simp add: search_with_location_priority_def split: prod.splits sum.splits)
  show ?thesis
    by (rule conjI[OF a conjI[OF b conjI[OF c conjI[OF d conjI[OF e f]]]]])
qed

theorem location_search_params_required_witness:
  "route_get_search_location sample_float_of_str (Some ''Berlin'') None (Some 13.0582)
       (fresh_world unreachable)
     = (Rejected [''lat''], fresh_world unreachable)
   \<and> route_post_search_location sample_float_of_str (Some ''Berlin'') None (Some 13.0582)
       (fresh_world unreachable)
     = (Rejected [''lat''], fresh_world unreachable)
   \<and> sent (fresh_world unreachable) = []"
  using location_search_params_required
          [where float_of_str = sample_float_of_str and query = "''Berlin''" and lat = 0
             and lon = 0 and w = "fresh_world unreachable" and lat' = None
             and lon' = "Some 13.0582" and query' = "Some ''Berlin''"]
  by (simp add: missing_params_def fresh_world_def)

text \<open>
  C8. When the upstream answers a reverse geocode with a 2xx response whose feature
  list is not empty and whose first feature has a properties mapping, the function and
  both variants of the endpoint return that mapping itself: not a list around it, not a
  \<open>PlaceResponse\<close>.
\<close>

theorem reverse_geocode_returns_first_properties:
  assumes "upstream w (last (sent (snd (reverse_geocode lat lon w)))) = Responded r"
    and "is_success r"
    and "json_body r = Inr body"
    and "py_getitem body ''features'' = Inr (JArr (first # rest))"
    and "py_getitem first ''properties'' = Inr (JObj props)"
  shows "fst (reverse_geocode lat lon w) = Inr (JObj props)
       \<and> fst (reverse_geocode_endpoint \<lparr>rg_lat = lat, rg_lon = lon\<rparr> w) = Inr (JObj props)
       \<and> fst (reverse_geocode_endpoint_get lat lon w) = Inr (JObj props)"
proof -
  have "fst (reverse_geocode lat lon w) = Inr (JObj props)"
    by (simp add: reverse_geocode_decoded[OF assms(1-3)] assms(4,5))
  then show ?thesis
    by (simp add: reverse_geocode_endpoint_def reverse_geocode_endpoint_get_def)
qed

theorem reverse_geocode_returns_first_properties_witness:
  "fst (reverse_geocode_endpoint_get 52.519854 13.438596
          (fresh_world (respond_with 200 (feature_collection [berlin, nameless]))))
     = Inr (JObj [(''osm_id'', JInt 240109189), (''name'', JStr ''Berlin''),
                  (''country'', JStr ''Germany'')])"
  using reverse_geocode_returns_first_properties
          [of "fresh_world (respond_with 200 (feature_collection [berlin, nameless]))"
              "52.519854" "13.438596"
              "\<lparr>status_code = 200, error_text = ''status 200'',
                json_body = feature_collection [berlin, nameless]\<rparr>"
              "JObj [(''type'', JStr ''FeatureCollection''), (''features'', JArr [berlin, nameless])]"
              berlin "[nameless]"
              "[(''osm_id'', JInt 240109189), (''name'', JStr ''Berlin''),
                (''country'', JStr ''Germany'')]"]
  by (simp add: fresh_world_def respond_with_def is_success_def feature_collection_def
        berlin_def show_nat.simps digits_def)

text \<open>
  C9. For each of the three operations, the POST variant on a request body and the
  GET variant on the same parameters give the same result and leave the same world.
\<close>

theorem get_post_variants_agree:
  "search_places float_of_str \<lparr>ps_query = query, ps_limit = limit, ps_lang = lang\<rparr> w
     = search_places_get float_of_str query limit lang w
   \<and> search_with_location_priority float_of_str \<lparr>ls_query = query, ls_lat = lat, ls_lon = lon\<rparr> w
     = search_with_location_priority_get float_of_str query lat lon w
   \<and> reverse_geocode_endpoint \<lparr>rg_lat = lat, rg_lon = lon\<rparr> w
     = reverse_geocode_endpoint_get lat lon w"
  by (simp add: search_places_def search_places_get_def search_with_location_priority_def
        search_with_location_priority_get_def reverse_geocode_endpoint_def
        reverse_geocode_endpoint_get_def)

text \<open>
  C10. The loop of the four search endpoints reads \<^verbatim>\<open>feature["properties"]\<close> and
  \<^verbatim>\<open>feature["geometry"]["coordinates"]\<close> outside the \<^verbatim>\<open>try\<close> block of the geocoding
  function: when the upstream call succeeds with a feature list that holds a feature
  without one of these keys, the endpoint fails with an exception that is not an
  \<open>HTTPException\<close>, so not with the 500 "Unexpected error" of the error handler.
\<close>

theorem missing_feature_key_is_untranslated:
  assumes "JObj kvs \<in> set fs"
    and "map_of kvs ''properties'' = None \<or> map_of kvs ''geometry'' = None
         \<or> (\<exists>g. map_of kvs ''geometry'' = Some (JObj g) \<and> map_of g ''coordinates'' = None)"
  shows "(fst (search_place query limit lang w) = Inr (JArr fs) \<longrightarrow>
            (\<exists>e. fst (search_places float_of_str \<lparr>ps_query = query, ps_limit = limit, ps_lang = lang\<rparr> w) = Inl e
                  \<and> \<not> is_HTTPException e)
          \<and> (\<exists>e. fst (search_places_get float_of_str query limit lang w) = Inl e \<and> \<not> is_HTTPException e))
       \<and> (fst (search_with_location query lat lon w) = Inr (JArr fs) \<longrightarrow>
            (\<exists>e. fst (search_with_location_priority float_of_str
                         \<lparr>ls_query = query, ls_lat = lat, ls_lon = lon\<rparr> w) = Inl e
                  \<and> \<not> is_HTTPException e)
          \<and> (\<exists>e. fst (search_with_location_priority_get float_of_str query lat lon w) = Inl e
                  \<and> \<not> is_HTTPException e))"
  using build_results_fails[OF assms]
  by (simp add: endpoint_search_places endpoint_search_places_get
        endpoint_search_with_location_priority endpoint_search_with_location_priority_get)

theorem missing_feature_key_is_untranslated_witness:
  "fst (search_places_get sample_float_of_str ''Berlin'' (Some 2) None
          (fresh_world (respond_with 200 (feature_collection [berlin, no_properties]))))
     = Inl (KeyError ([CHR 39] @ ''properties'' @ [CHR 39]))
   \<and> fst (search_places sample_float_of_str \<lparr>ps_query = ''Berlin'', ps_limit = Some 2, ps_lang = None\<rparr>
          (fresh_world (respond_with 200 (feature_collection [berlin, no_properties]))))
     = Inl (KeyError ([CHR 39] @ ''properties'' @ [CHR 39]))
   \<and> fst (search_with_location_priority_get sample_float_of_str ''Berlin'' 52.3879 13.0582
          (fresh_world (respond_with 200 (feature_collection [berlin, no_properties]))))
     = Inl (KeyError ([CHR 39] @ ''properties'' @ [CHR 39]))
   \<and> fst (search_with_location_priority sample_float_of_str
              \<lparr>ls_query = ''Berlin'', ls_lat = 52.3879, ls_lon = 13.0582\<rparr>
          (fresh_world (respond_with 200 (feature_collection [berlin, no_properties]))))
     = Inl (KeyError ([CHR 39] @ ''properties'' @ [CHR 39]))
   \<and> \<not> is_HTTPException (KeyError ([CHR 39] @ ''properties'' @ [CHR 39]))"
  using missing_feature_key_is_untranslated
          [where float_of_str = sample_float_of_str
             and kvs = "[(''geometry'', JObj [(''coordinates'', JArr [JInt 2, JInt 48])])]"
             and fs = "[berlin, no_properties]" and query = "''Berlin''"
             and limit = "Some 2" and lang = None
             and w = "fresh_world (respond_with 200 (feature_collection [berlin, no_properties]))"
             and lat = "52.3879" and lon = "13.0582"]
  by (simp add: search_places_get_def search_places_def search_place_def
        search_with_location_priority_get_def search_with_location_priority_def
        search_with_location_def client_get_def Let_def
        fresh_world_def respond_with_def raise_for_status_def is_success_def response_json_def
        feature_collection_def build_results_def project_feature_def PlaceResponse_init_def
        berlin_def no_properties_def is_HTTPException_def)

end
